theory Spec2Isabelle
  imports Complex_Main "HOL-Library.AList"
begin

section \<open>JavaScript values and token objects\<close>

text \<open>
  A design token is a plain JavaScript object. Property order is observable (through
  \<^verbatim>\<open>Object.keys\<close> in the serialisers), so an object is an association list in
  insertion order: assigning to an existing property keeps its place, assigning to a new
  one appends it. Token names are identifiers, never array indices, so the engine's
  special ordering of integer-like keys does not arise.
\<close>

datatype jsval =
    JUndefined
  | JNull
  | JBool bool
  | JNum rat
  | JStr string
  | JObj "(string \<times> jsval) list"

type_synonym obj = "(string \<times> jsval) list"

definition obj_get :: "obj \<Rightarrow> string \<Rightarrow> jsval option" where
  "obj_get ob k = map_of ob k"

definition obj_set :: "string \<Rightarrow> jsval \<Rightarrow> obj \<Rightarrow> obj" where
  "obj_set k v ob = AList.update k v ob"

text \<open>Copying the own properties of \<open>src\<close> onto \<open>target\<close>, in the order of \<open>src\<close>.\<close>

definition obj_assign :: "obj \<Rightarrow> obj \<Rightarrow> obj" where
  "obj_assign target src = foldl (\<lambda>t (k, v). obj_set k v t) target src"

text \<open>\<^verbatim>\<open>Object.assign(target, ...sources)\<close>\<close>

definition Object_assign :: "obj \<Rightarrow> obj list \<Rightarrow> obj" where
  "Object_assign target sources = foldl obj_assign target sources"

text \<open>The object literal \<^verbatim>\<open>{ ...a }\<close>: a fresh object with the properties of \<open>a\<close>.\<close>

definition obj_spread :: "obj \<Rightarrow> obj" where
  "obj_spread a = obj_assign [] a"

section \<open>Themes, options and cache values\<close>

datatype key_part = KStr string | KNum int

text \<open>
  A theme is an object with identity: \<open>theme_ref\<close> stands for the reference that
  \<^verbatim>\<open>!==\<close> compares. Its derivation is an opaque pure function, and its result is
  only read (it is spread into a new object).
\<close>

record theme =
  theme_ref :: nat
  theme_id :: key_part
  getDerivativeToken :: "obj \<Rightarrow> obj"

record cssVar_option =
  cv_prefix :: "string option"
  cv_unitless :: "(string \<times> bool) list option"
  cv_ignore :: "(string \<times> bool) list option"
  cv_preserve :: "(string \<times> bool) list option"
  cv_key :: "string option"

text \<open>
  The functions of the option return an object, and the compute callback writes into the
  object it gets back. So what such a function returns is a reference: either a new
  object, given by its properties, or an object that the caller keeps and can hand back
  again, given by its address in the store of kept objects (\<open>held\<close> below).
\<close>

datatype token_ref = Fresh obj | Held nat

fun deref :: "(nat \<Rightarrow> obj) \<Rightarrow> token_ref \<Rightarrow> obj" where
  "deref store (Fresh ob) = ob"
| "deref store (Held r) = store r"

record cache_option =
  opt_salt :: "string option"
  opt_override :: "obj option"
  opt_formatToken :: "(obj \<Rightarrow> token_ref) option"
  opt_getComputedToken :: "(obj \<Rightarrow> obj \<Rightarrow> theme \<Rightarrow> token_ref) option"
  opt_cssVar :: "cssVar_option option"

text \<open>
  \<^verbatim>\<open>TokenCacheValue = [token, hashId, realToken, cssVarStr, cssVarKey]\<close>, with the
  token as it is when the compute callback returns.
\<close>

type_synonym token_cache_value = "obj \<times> string \<times> obj \<times> string \<times> string"

record hook_args =
  arg_theme :: theme
  arg_tokens :: "obj list"
  arg_option :: "cache_option option"

section \<open>Module state\<close>

text \<open>
  A style element of the document, as far as this module looks at it: the
  \<^verbatim>\<open>ATTR_TOKEN\<close> attribute and the \<^verbatim>\<open>CSS_IN_JS_INSTANCE\<close> property.
\<close>

record style_tag =
  st_token :: "string option"
  st_instance :: "string option"
  st_css :: string

text \<open>
  The module-level variables (\<^verbatim>\<open>tokenKeys\<close>, \<^verbatim>\<open>cacheArgs\<close>,
  \<^verbatim>\<open>setArgUpdate\<close>, \<^verbatim>\<open>cachedToken\<close>) together with the document and the
  objects that callers keep. The \<^verbatim>\<open>Map\<close> \<^verbatim>\<open>tokenKeys\<close> is an association list
  in insertion order; \<open>document\<close> is \<open>None\<close> where
  \<^verbatim>\<open>typeof document === 'undefined'\<close>; \<open>setArgUpdate\<close> records whether a state
  setter has been stored; \<open>globalCache\<close> is whatever the global cache hook keeps;
  \<open>held r\<close> is what the kept object at address \<open>r\<close> holds.
\<close>

record 'c world =
  tokenKeys :: "(string \<times> int) list"
  document :: "style_tag list option"
  cacheArgs :: "hook_args option"
  setArgUpdate :: bool
  cachedToken :: token_cache_value
  globalCache :: 'c
  held :: "nat \<Rightarrow> obj"

datatype js_error = TypeError | SyntaxError

text \<open>
  A call that can throw returns either the error with the state at the throw, or the
  state it ends in. \<open>world_after\<close> is the state that is left in either case.
\<close>

type_synonym 'c outcome = "(js_error \<times> 'c world) + 'c world"


section \<open>Collaborators\<close>

text \<open>
  What the module imports from elsewhere and only calls: the content hash
  (\<^verbatim>\<open>@emotion/hash\<close>), the serialisers and the CSS-variable transformation of
  \<^verbatim>\<open>../util\<close>, the attribute names of \<^verbatim>\<open>../StyleContext\<close>, the
  number-to-string conversion of the language, and the selector engine of the document.
  They are parameters of the model, taken as total and pure functions.
  \<open>flattenCssVar\<close> is \<^verbatim>\<open>flattenToken\<close> at the \<^verbatim>\<open>cssVar\<close> option object;
  \<open>transformToken\<close> returns a new object; \<open>styleAttrs\<close> renders the attributes of an
  extracted style element; \<open>css_select\<close> reads a selector and either throws or says
  which style elements match.
\<close>

record transform_config =
  tc_prefix :: "string option"
  tc_ignore :: "(string \<times> bool) list option"
  tc_unitless :: "(string \<times> bool) list option"
  tc_preserve :: "(string \<times> bool) list option"

record collab =
  hash :: "string \<Rightarrow> string"
  token2key :: "obj \<Rightarrow> string \<Rightarrow> string"
  flattenToken :: "obj \<Rightarrow> string"
  flattenCssVar :: "cssVar_option \<Rightarrow> string"
  transformToken :: "obj \<Rightarrow> string option \<Rightarrow> transform_config \<Rightarrow> obj \<times> string"
  styleAttrs :: "string \<Rightarrow> jsval option \<Rightarrow> (string \<times> string) list \<Rightarrow> string"
  num2str :: "rat \<Rightarrow> string"
  css_select :: "string \<Rightarrow> js_error + (style_tag \<Rightarrow> bool)"
  ATTR_MARK :: string
  ATTR_TOKEN :: string

text \<open>The value of \<^verbatim>\<open>useContext(StyleContext)\<close>, as far as it is read.\<close>

record style_context =
  ctx_instanceId :: string
  ctx_container :: "nat option"

text \<open>
  A property read inside a template literal or passed where a string is expected
  (\<open>None\<close> is a missing property, which reads as \<^verbatim>\<open>undefined\<close>).
\<close>

definition str_of :: "collab \<Rightarrow> jsval option \<Rightarrow> string" where
  "str_of cb v =
     (case v of
        None \<Rightarrow> ''undefined''
      | Some JUndefined \<Rightarrow> ''undefined''
      | Some JNull \<Rightarrow> ''null''
      | Some (JBool b) \<Rightarrow> (if b then ''true'' else ''false'')
      | Some (JNum n) \<Rightarrow> num2str cb n
      | Some (JStr s) \<Rightarrow> s
      | Some (JObj _) \<Rightarrow> ''[object Object]'')"

section \<open>The usage counter of theme keys\<close>

text \<open>\<^verbatim>\<open>tokenKeys.get(key) || 0\<close>: a missing key and a stored zero both give zero.\<close>

definition count_or0 :: "(string \<times> int) list \<Rightarrow> string \<Rightarrow> int" where
  "count_or0 tk key = (case map_of tk key of None \<Rightarrow> 0 | Some c \<Rightarrow> c)"

definition recordCleanToken :: "string \<Rightarrow> 'c world \<Rightarrow> 'c world" where
  "recordCleanToken tokenKey s =
     s\<lparr>tokenKeys := AList.update tokenKey (count_or0 (tokenKeys s) tokenKey + 1) (tokenKeys s)\<rparr>"

text \<open>
  \<^verbatim>\<open>removeStyleTags\<close> pastes the key as it is between double quotes into the
  selector \<^verbatim>\<open>style[ATTR_TOKEN="key"]\<close>, where \<^verbatim>\<open>ATTR_TOKEN\<close> is the name
  of the attribute that a style tag carries in \<open>st_token\<close>. A key stands for itself
  there when it has no double quote, no backslash, no line break (line feed, carriage
  return, form feed) and no null character: the selector then matches the style elements
  whose attribute equals the key. Any other key changes how the selector is read: a
  double quote ends the string, a backslash starts an escape, a line break is not allowed
  inside a string. What the document does with such a selector is left to the selector
  engine, which is given the selector text; it may throw.
\<close>

definition css_plain :: "string \<Rightarrow> bool" where
  "css_plain key =
     list_all (\<lambda>c. c \<notin> set [CHR 0x00, CHR 0x0A, CHR 0x0C, CHR 0x0D, CHR 0x22, CHR 0x5C]) key"

definition token_selector :: "collab \<Rightarrow> string \<Rightarrow> string" where
  "token_selector cb key = ''style['' @ ATTR_TOKEN cb @ ''='' @ [CHR 0x22] @ key @ [CHR 0x22] @ '']''"

definition select_token_styles :: "collab \<Rightarrow> string \<Rightarrow> js_error + (style_tag \<Rightarrow> bool)" where
  "select_token_styles cb key =
     (if css_plain key then Inr (\<lambda>t. st_token t = Some key)
      else css_select cb (token_selector cb key))"


definition removeStyleTags ::
  "collab \<Rightarrow> string \<Rightarrow> string \<Rightarrow> style_tag list option \<Rightarrow> js_error + style_tag list option" where
  "removeStyleTags cb key instanceId doc =
     (case doc of
        None \<Rightarrow> Inr None
      | Some styles \<Rightarrow>
          (case select_token_styles cb key of
             Inl e \<Rightarrow> Inl e
           | Inr selected \<Rightarrow>
               Inr (Some (filter (\<lambda>t. \<not> (selected t \<and> st_instance t = Some instanceId)) styles))))"

definition TOKEN_THRESHOLD :: int where
  "TOKEN_THRESHOLD = 0"

text \<open>
  The \<^verbatim>\<open>forEach\<close> over the cleanable keys: for each key the style tags are removed
  and the key is deleted. A throw of \<^verbatim>\<open>removeStyleTags\<close> ends the loop before the
  key is deleted.
\<close>

fun sweep_keys :: "collab \<Rightarrow> string \<Rightarrow> string list \<Rightarrow> 'c world \<Rightarrow> 'c outcome" where
  "sweep_keys cb instanceId [] w = Inr w"
| "sweep_keys cb instanceId (key # keys) w =
     (case removeStyleTags cb key instanceId (document w) of
        Inl e \<Rightarrow> Inl (e, w)
      | Inr doc \<Rightarrow>
          sweep_keys cb instanceId keys
            (w\<lparr>document := doc, tokenKeys := AList.delete key (tokenKeys w)\<rparr>))"

definition decremented :: "string \<Rightarrow> (string \<times> int) list \<Rightarrow> (string \<times> int) list" where
  "decremented tokenKey tk = AList.update tokenKey (count_or0 tk tokenKey - 1) tk"

definition cleanable :: "(string \<times> int) list \<Rightarrow> string list" where
  "cleanable tk = filter (\<lambda>key. count_or0 tk key \<le> 0) (map fst tk)"

definition cleanTokenStyle :: "collab \<Rightarrow> string \<Rightarrow> string \<Rightarrow> 'c world \<Rightarrow> 'c outcome" where
  "cleanTokenStyle cb tokenKey instanceId s =
     (let s1 = s\<lparr>tokenKeys := decremented tokenKey (tokenKeys s)\<rparr>;
          tokenKeyList = map fst (tokenKeys s1);
          cleanableKeyList = cleanable (tokenKeys s1)
      in if int (length tokenKeyList) - int (length cleanableKeyList) > TOKEN_THRESHOLD
         then sweep_keys cb instanceId cleanableKeyList s1
         else Inr s1)"

section \<open>Token derivation\<close>

definition EMPTY_OVERRIDE :: obj where
  "EMPTY_OVERRIDE = []"

text \<open>
  \<^verbatim>\<open>process.env.NODE_ENV !== 'production' ? 'css-dev-only-do-not-override' : 'css'\<close>
\<close>

definition hashPrefix :: "string option \<Rightarrow> string" where
  "hashPrefix node_env =
     (if node_env \<noteq> Some ''production'' then ''css-dev-only-do-not-override'' else ''css'')"

text \<open>
  The spread \<^verbatim>\<open>{...derivativeToken, ...overrideToken}\<close> makes a new object; with a
  format function the result is the object which that function returns.
\<close>

definition getComputedToken ::
  "obj \<Rightarrow> obj \<Rightarrow> theme \<Rightarrow> (obj \<Rightarrow> token_ref) option \<Rightarrow> token_ref" where
  "getComputedToken originToken overrideToken th format =
     (let derivativeToken = getDerivativeToken th originToken;
          mergedDerivativeToken = obj_assign (obj_assign [] derivativeToken) overrideToken
      in case format of
           Some f \<Rightarrow> f mergedDerivativeToken
         | None \<Rightarrow> Fresh mergedDerivativeToken)"

definition TOKEN_PREFIX :: string where
  "TOKEN_PREFIX = ''token''"

text \<open>The defaults of the destructured option.\<close>

definition salt_of :: "cache_option \<Rightarrow> string" where
  "salt_of option = (case opt_salt option of None \<Rightarrow> [] | Some x \<Rightarrow> x)"

definition override_of :: "cache_option \<Rightarrow> obj" where
  "override_of option = (case opt_override option of None \<Rightarrow> EMPTY_OVERRIDE | Some x \<Rightarrow> x)"

text \<open>
  \<^verbatim>\<open>memoResult(() => Object.assign({}, ...tokens), tokens)\<close>: the memoiser returns
  what the function returns.
\<close>

definition mergeTokens :: "obj list \<Rightarrow> obj" where
  "mergeTokens tokens = Object_assign [] tokens"

text \<open>
  The first statement of the compute callback:
  \<^verbatim>\<open>compute ? compute(mergedToken, override, theme)
          : getComputedToken(mergedToken, override, theme, formatToken)\<close>
\<close>

definition derivedToken :: "theme \<Rightarrow> obj \<Rightarrow> cache_option \<Rightarrow> token_ref" where
  "derivedToken th mergedToken option =
     (case opt_getComputedToken option of
        Some compute \<Rightarrow> compute mergedToken (override_of option) th
      | None \<Rightarrow> getComputedToken mergedToken (override_of option) th (opt_formatToken option))"

text \<open>The replacement of token values by CSS variables, when \<^verbatim>\<open>cssVar\<close> is given.\<close>

definition cssVarStep :: "collab \<Rightarrow> cache_option \<Rightarrow> obj \<Rightarrow> obj \<times> string" where
  "cssVarStep cb option mergedDerivativeToken =
     (case opt_cssVar option of
        Some cv \<Rightarrow>
          transformToken cb mergedDerivativeToken (cv_key cv)
            \<lparr>tc_prefix = cv_prefix cv, tc_ignore = cv_ignore cv,
             tc_unitless = cv_unitless cv, tc_preserve = cv_preserve cv\<rparr>
      | None \<Rightarrow> (mergedDerivativeToken, []))"

text \<open>\<^verbatim>\<open>cssVar?.key\<close>\<close>

definition cssVar_key :: "cache_option \<Rightarrow> string option" where
  "cssVar_key option = (case opt_cssVar option of None \<Rightarrow> None | Some cv \<Rightarrow> cv_key cv)"

text \<open>
  The compute callback that \<^verbatim>\<open>useCacheTokenHelper\<close> hands to the global cache. It
  runs on a cache miss, records the theme key in \<^verbatim>\<open>tokenKeys\<close> and returns the
  cache value. The theme key is \<^verbatim>\<open>cssVar?.key ?? tokenKey\<close>, the last component
  \<^verbatim>\<open>cssVar?.key || ''\<close>.

  The callback reads the derived object as it is at that moment, copies it into
  \<^verbatim>\<open>actualToken\<close>, and assigns \<^verbatim>\<open>_tokenKey\<close>, \<^verbatim>\<open>_themeKey\<close> and
  \<^verbatim>\<open>_hashId\<close> to \<^verbatim>\<open>mergedDerivativeToken\<close>. With \<^verbatim>\<open>cssVar\<close> that is
  the new object of \<^verbatim>\<open>transformToken\<close>. Without it, it is the derived object itself:
  when that is an object the caller keeps, the three properties are written into the
  caller's object and are there when the object is handed back again.
\<close>

definition computeToken ::
  "collab \<Rightarrow> string option \<Rightarrow> theme \<Rightarrow> obj \<Rightarrow> cache_option \<Rightarrow> 'c world
     \<Rightarrow> token_cache_value \<times> 'c world" where
  "computeToken cb node_env th mergedToken option s =
     (let salt = salt_of option;
          derived = derivedToken th mergedToken option;
          mergedDerivativeToken0 = deref (held s) derived;
          actualToken0 = obj_spread mergedDerivativeToken0;
          (mergedDerivativeToken1, cssVarsStr) = cssVarStep cb option mergedDerivativeToken0;
          tokenKey = token2key cb mergedDerivativeToken1 salt;
          mergedDerivativeToken2 = obj_set ''_tokenKey'' (JStr tokenKey) mergedDerivativeToken1;
          actualToken = obj_set ''_tokenKey'' (JStr (token2key cb actualToken0 salt)) actualToken0;
          themeKey = (case cssVar_key option of Some k \<Rightarrow> k | None \<Rightarrow> tokenKey);
          mergedDerivativeToken3 = obj_set ''_themeKey'' (JStr themeKey) mergedDerivativeToken2;
          s1 = recordCleanToken themeKey s;
          hashId = hashPrefix node_env @ ''-'' @ hash cb tokenKey;
          mergedDerivativeToken4 = obj_set ''_hashId'' (JStr hashId) mergedDerivativeToken3;
          s2 = (case (opt_cssVar option, derived) of
                  (None, Held r) \<Rightarrow> s1\<lparr>held := (held s1)(r := mergedDerivativeToken4)\<rparr>
                | _ \<Rightarrow> s1)
      in ((mergedDerivativeToken4, hashId, actualToken, cssVarsStr,
           (case cssVar_key option of Some k \<Rightarrow> k | None \<Rightarrow> [])), s2))"

text \<open>The removal callback: \<^verbatim>\<open>cleanTokenStyle(cache[0]._themeKey, instanceId)\<close>\<close>

definition onTokenRemove :: "collab \<Rightarrow> style_context \<Rightarrow> token_cache_value \<Rightarrow> 'c world \<Rightarrow> 'c outcome" where
  "onTokenRemove cb ctx cache s =
     cleanTokenStyle cb (str_of cb (obj_get (fst cache) ''_themeKey'')) (ctx_instanceId ctx) s"

text \<open>
  The effect callback calls \<^verbatim>\<open>updateCSS\<close> and tags the style element it gets
  back. The model returns the call: its arguments and the two tags.
\<close>

record updateCSS_options =
  mark :: string
  prepend :: string
  attachTo :: "nat option"
  priority :: int

record injection =
  inj_css :: string
  inj_key :: string
  inj_options :: updateCSS_options
  inj_instance :: string
  inj_token :: string

definition onTokenEffect ::
  "collab \<Rightarrow> style_context \<Rightarrow> cache_option \<Rightarrow> token_cache_value \<Rightarrow> injection option" where
  "onTokenEffect cb ctx option cache =
     (case cache of (token, _, _, cssVarsStr, _) \<Rightarrow>
        if opt_cssVar option \<noteq> None \<and> cssVarsStr \<noteq> []
        then Some \<lparr>inj_css = cssVarsStr,
                   inj_key = hash cb (''css-variables-'' @ str_of cb (obj_get token ''_themeKey'')),
                   inj_options = \<lparr>mark = ATTR_MARK cb, prepend = ''queue'',
                                  attachTo = ctx_container ctx, priority = - 999\<rparr>,
                   inj_instance = ctx_instanceId ctx,
                   inj_token = str_of cb (obj_get token ''_themeKey'')\<rparr>
        else None)"

definition default_option :: cache_option where
  "default_option = \<lparr>opt_salt = None, opt_override = None, opt_formatToken = None,
                      opt_getComputedToken = None, opt_cssVar = None\<rparr>"

text \<open>
  \<^verbatim>\<open>useCacheTokenHelper\<close>. The global cache hook is a parameter: it receives the
  prefix, the key path and the three callbacks.
\<close>

type_synonym 'c global_cache_hook =
  "string \<Rightarrow> key_part list
     \<Rightarrow> ('c world \<Rightarrow> token_cache_value \<times> 'c world)
     \<Rightarrow> (token_cache_value \<Rightarrow> 'c world \<Rightarrow> 'c outcome)
     \<Rightarrow> (token_cache_value \<Rightarrow> injection option)
     \<Rightarrow> 'c world \<Rightarrow> token_cache_value \<times> 'c world"

definition useCacheTokenHelper ::
  "'c global_cache_hook \<Rightarrow> collab \<Rightarrow> string option \<Rightarrow> style_context
     \<Rightarrow> theme \<Rightarrow> obj list \<Rightarrow> cache_option option \<Rightarrow> 'c world \<Rightarrow> token_cache_value \<times> 'c world" where
  "useCacheTokenHelper useGlobalCache cb node_env ctx th tokens option_arg s =
     (let option = (case option_arg of None \<Rightarrow> default_option | Some x \<Rightarrow> x);
          mergedToken = mergeTokens tokens;
          tokenStr = flattenToken cb mergedToken;
          overrideTokenStr = flattenToken cb (override_of option);
          cssVarStr = (case opt_cssVar option of Some cv \<Rightarrow> flattenCssVar cb cv | None \<Rightarrow> [])
      in useGlobalCache TOKEN_PREFIX
           [KStr (salt_of option), theme_id th, KStr tokenStr, KStr overrideTokenStr, KStr cssVarStr]
           (computeToken cb node_env th mergedToken option)
           (onTokenRemove cb ctx)
           (onTokenEffect cb ctx option)
           s)"

section \<open>Extraction\<close>

text \<open>
  Modelled from the spec: \<^verbatim>\<open>toStyleStr\<close> belongs to \<^verbatim>\<open>../util\<close>, which is
  not among the sources. The spec says of it that a \<^verbatim>\<open>plain\<close> flag controls whether
  wrapper markup is added: the plain result is the style text itself, any other result is
  the style text inside a style element that carries the attributes.
\<close>

definition toStyleStr ::
  "collab \<Rightarrow> string \<Rightarrow> string \<Rightarrow> jsval option \<Rightarrow> (string \<times> string) list \<Rightarrow> bool option \<Rightarrow> string" where
  "toStyleStr cb style tokenKey styleId customizeAttrs plain =
     (if plain = Some True then style
      else ''<style '' @ styleAttrs cb tokenKey styleId customizeAttrs @ ''>'' @ style @ ''</style>'')"

record extract_options =
  ex_plain :: "bool option"

text \<open>
  \<^verbatim>\<open>extract\<close> of the source (the name is taken by a command of the logic).
\<close>

definition extract_entry ::
  "collab \<Rightarrow> token_cache_value \<Rightarrow> 'e \<Rightarrow> extract_options option
     \<Rightarrow> (int \<times> jsval option \<times> string) option" where
  "extract_entry cb cache effectStyles options =
     (case cache of (_, _, realToken, styleStr, cssVarKey) \<Rightarrow>
        let plain_flag = (case options of None \<Rightarrow> None | Some x \<Rightarrow> ex_plain x)
        in if styleStr = [] then None
           else
             let styleId = obj_get realToken ''_tokenKey'';
                 order = - 999;
                 sharedAttrs = [(''data-rc-order'', ''prependQueue''), (''data-rc-priority'', ''-999'')];
                 styleText = toStyleStr cb styleStr cssVarKey styleId sharedAttrs plain_flag
             in Some (order, styleId, styleText))"

section \<open>The hard-coded cache value\<close>

text \<open>
  The literal that \<^verbatim>\<open>cachedToken\<close> is initialised with. The token and the real
  token of the literal list the same properties with the same values, up to and including
  \<^verbatim>\<open>_tokenKey\<close>; the token has \<^verbatim>\<open>_themeKey\<close> and \<^verbatim>\<open>_hashId\<close> after
  them.
\<close>

definition fixture_Menu :: obj where
  \<open>fixture_Menu =
    [(''colorBgContainer'', JStr ''rgb(49,49,61)''),
     (''itemActiveBg'', JStr ''#ffffff0d''),
     (''colorHighlight'', JStr ''#ffffff'')]\<close>

definition fixture_Card :: obj where
  \<open>fixture_Card =
    [(''colorBgContainer'', JStr ''#23232e'')]\<close>

definition fixture_Drawer :: obj where
  \<open>fixture_Drawer =
    [(''colorText'', JStr ''#ffffff''),
     (''colorTextBase'', JStr ''#ffffff'')]\<close>

definition fixture_Layout :: obj where
  \<open>fixture_Layout =
    [(''headerBg'', JStr ''rgb(49,49,61)''),
     (''bodyBg'', JStr ''rgb(49,49,61)''),
     (''footerBg'', JStr ''rgb(49,49,61)''),
     (''colorBgContainer'', JStr ''rgb(49,49,61)'')]\<close>

definition fixture_Modal :: obj where
  \<open>fixture_Modal =
    [(''headerBg'', JStr ''#1c1c26''),
     (''margin'', JNum 0),
     (''contentBg'', JStr ''#23232e'')]\<close>

definition fixture_Button :: obj where
  \<open>fixture_Button =
    [(''colorText'', JStr ''#ffffffd9''),
     (''defaultBg'', JStr ''#444457''),
     (''borderRadius'', JNum 0),
     (''borderRadiusLG'', JNum 0),
     (''fontSize'', JNum 14),
     (''lineHeight'', JNum 24)]\<close>

definition fixture_Tabs :: obj where
  \<open>fixture_Tabs =
    [(''fontSize'', JNum 14),
     (''colorPrimary'', JStr ''#0ba7da'')]\<close>

definition fixture_Table :: obj where
  \<open>fixture_Table =
    [(''motion'', JBool False),
     (''motionDurationSlow'', JStr ''0s''),
     (''motionDurationFast'', JStr ''0s''),
     (''borderRadius'', JNum 0),
     (''headerBorderRadius'', JNum 0),
     (''colorBgContainer'', JStr ''#23232e''),
     (''fontSize'', JNum 14)]\<close>

definition fixture_Switch :: obj where
  \<open>fixture_Switch =
    [(''motion'', JBool True),
     (''motionDurationMid'', JStr ''0.2s''),
     (''colorPrimary'', JStr ''rgb(11,167,218)''),
     (''trackHeight'', JNum 24)]\<close>

definition fixture_Select :: obj where
  \<open>fixture_Select =
    [(''optionSelectedBg'', JStr ''rgb(28,142,183)'')]\<close>

definition fixture_fields1 :: obj where
  \<open>fixture_fields1 =
    [(''blue'', JStr ''#1677ff''),
     (''purple'', JStr ''#722ED1''),
     (''cyan'', JStr ''#13C2C2''),
     (''green'', JStr ''#52C41A''),
     (''magenta'', JStr ''#EB2F96''),
     (''pink'', JStr ''#eb2f96''),
     (''red'', JStr ''#F5222D''),
     (''orange'', JStr ''#FA8C16''),
     (''yellow'', JStr ''#FADB14''),
     (''volcano'', JStr ''#FA541C''),
     (''geekblue'', JStr ''#2F54EB''),
     (''gold'', JStr ''#FAAD14''),
     (''lime'', JStr ''#A0D911''),
     (''colorPrimary'', JStr ''#0c91bc''),
     (''colorSuccess'', JStr ''#49aa19''),
     (''colorWarning'', JStr ''#d89614''),
     (''colorError'', JStr ''#dc4446''),
     (''colorInfo'', JStr ''#1668dc''),
     (''colorLink'', JStr ''#1668dc''),
     (''colorTextBase'', JStr ''#fff''),
     (''colorBgBase'', JStr ''#23232e''),
     (''fontFamily'', JStr ''ui-monospace, SFMono-Regular, Menlo, Monaco, Consolas, "Liberation Mono", "Courier New", monospace''),
     (''fontFamilyCode'', JStr '''SFMono-Regular', Consolas, 'Liberation Mono', Menlo, Courier, monospace''),
     (''fontSize'', JNum 12),
     (''lineWidth'', JNum 1),
     (''lineType'', JStr ''solid''),
     (''motionUnit'', JNum 0.1),
     (''motionBase'', JNum 0),
     (''motionEaseOutCirc'', JStr ''cubic-bezier(0.08, 0.82, 0.17, 1)''),
     (''motionEaseInOutCirc'', JStr ''cubic-bezier(0.78, 0.14, 0.15, 0.86)''),
     (''motionEaseOut'', JStr ''cubic-bezier(0.215, 0.61, 0.355, 1)''),
     (''motionEaseInOut'', JStr ''cubic-bezier(0.645, 0.045, 0.355, 1)''),
     (''motionEaseOutBack'', JStr ''cubic-bezier(0.12, 0.4, 0.29, 1.46)''),
     (''motionEaseInBack'', JStr ''cubic-bezier(0.71, -0.46, 0.88, 0.6)''),
     (''motionEaseInQuint'', JStr ''cubic-bezier(0.755, 0.05, 0.855, 0.06)''),
     (''motionEaseOutQuint'', JStr ''cubic-bezier(0.23, 1, 0.32, 1)''),
     (''borderRadius'', JNum 6),
     (''sizeUnit'', JNum 4),
     (''sizeStep'', JNum 4),
     (''sizePopupArrow'', JNum 16),
     (''controlHeight'', JNum 28),
     (''zIndexBase'', JNum 0),
     (''zIndexPopupBase'', JNum 1000),
     (''opacityImage'', JNum 1),
     (''wireframe'', JBool False),
     (''motion'', JBool False),
     (''colorText'', JStr ''#ffffffa6''),
     (''colorTextSecondary'', JStr ''#ffffff73''),
     (''colorTextDisabled'', JStr ''#ffffff40''),
     (''colorIcon'', JStr ''#ffffffa6''),
     (''colorIconHover'', JStr ''#ffffffd9''),
     (''colorBorder'', JStr ''#17171f''),
     (''fontSizeLG'', JNum 16),
     (''blue-1'', JStr ''#111a2c''),
     (''blue1'', JStr ''#111a2c''),
     (''blue-2'', JStr ''#112545''),
     (''blue2'', JStr ''#112545''),
     (''blue-3'', JStr ''#15325b''),
     (''blue3'', JStr ''#15325b''),
     (''blue-4'', JStr ''#15417e''),
     (''blue4'', JStr ''#15417e''),
     (''blue-5'', JStr ''#1554ad''),
     (''blue5'', JStr ''#1554ad''),
     (''blue-6'', JStr ''#1668dc'')]\<close>

definition fixture_fields2 :: obj where
  \<open>fixture_fields2 =
    [(''blue6'', JStr ''#1668dc''),
     (''blue-7'', JStr ''#3c89e8''),
     (''blue7'', JStr ''#3c89e8''),
     (''blue-8'', JStr ''#65a9f3''),
     (''blue8'', JStr ''#65a9f3''),
     (''blue-9'', JStr ''#8dc5f8''),
     (''blue9'', JStr ''#8dc5f8''),
     (''blue-10'', JStr ''#b7dcfa''),
     (''blue10'', JStr ''#b7dcfa''),
     (''purple-1'', JStr ''#1a1325''),
     (''purple1'', JStr ''#1a1325''),
     (''purple-2'', JStr ''#24163a''),
     (''purple2'', JStr ''#24163a''),
     (''purple-3'', JStr ''#301c4d''),
     (''purple3'', JStr ''#301c4d''),
     (''purple-4'', JStr ''#3e2069''),
     (''purple4'', JStr ''#3e2069''),
     (''purple-5'', JStr ''#51258f''),
     (''purple5'', JStr ''#51258f''),
     (''purple-6'', JStr ''#642ab5''),
     (''purple6'', JStr ''#642ab5''),
     (''purple-7'', JStr ''#854eca''),
     (''purple7'', JStr ''#854eca''),
     (''purple-8'', JStr ''#ab7ae0''),
     (''purple8'', JStr ''#ab7ae0''),
     (''purple-9'', JStr ''#cda8f0''),
     (''purple9'', JStr ''#cda8f0''),
     (''purple-10'', JStr ''#ebd7fa''),
     (''purple10'', JStr ''#ebd7fa''),
     (''cyan-1'', JStr ''#112123''),
     (''cyan1'', JStr ''#112123''),
     (''cyan-2'', JStr ''#113536''),
     (''cyan2'', JStr ''#113536''),
     (''cyan-3'', JStr ''#144848''),
     (''cyan3'', JStr ''#144848''),
     (''cyan-4'', JStr ''#146262''),
     (''cyan4'', JStr ''#146262''),
     (''cyan-5'', JStr ''#138585''),
     (''cyan5'', JStr ''#138585''),
     (''cyan-6'', JStr ''#13a8a8''),
     (''cyan6'', JStr ''#13a8a8''),
     (''cyan-7'', JStr ''#33bcb7''),
     (''cyan7'', JStr ''#33bcb7''),
     (''cyan-8'', JStr ''#58d1c9''),
     (''cyan8'', JStr ''#58d1c9''),
     (''cyan-9'', JStr ''#84e2d8''),
     (''cyan9'', JStr ''#84e2d8''),
     (''cyan-10'', JStr ''#b2f1e8''),
     (''cyan10'', JStr ''#b2f1e8''),
     (''green-1'', JStr ''#162312''),
     (''green1'', JStr ''#162312''),
     (''green-2'', JStr ''#1d3712''),
     (''green2'', JStr ''#1d3712''),
     (''green-3'', JStr ''#274916''),
     (''green3'', JStr ''#274916''),
     (''green-4'', JStr ''#306317''),
     (''green4'', JStr ''#306317''),
     (''green-5'', JStr ''#3c8618''),
     (''green5'', JStr ''#3c8618''),
     (''green-6'', JStr ''#49aa19''),
     (''green6'', JStr ''#49aa19''),
     (''green-7'', JStr ''#6abe39''),
     (''green7'', JStr ''#6abe39''),
     (''green-8'', JStr ''#8fd460'')]\<close>

definition fixture_fields3 :: obj where
  \<open>fixture_fields3 =
    [(''green8'', JStr ''#8fd460''),
     (''green-9'', JStr ''#b2e58b''),
     (''green9'', JStr ''#b2e58b''),
     (''green-10'', JStr ''#d5f2bb''),
     (''green10'', JStr ''#d5f2bb''),
     (''magenta-1'', JStr ''#291321''),
     (''magenta1'', JStr ''#291321''),
     (''magenta-2'', JStr ''#40162f''),
     (''magenta2'', JStr ''#40162f''),
     (''magenta-3'', JStr ''#551c3b''),
     (''magenta3'', JStr ''#551c3b''),
     (''magenta-4'', JStr ''#75204f''),
     (''magenta4'', JStr ''#75204f''),
     (''magenta-5'', JStr ''#a02669''),
     (''magenta5'', JStr ''#a02669''),
     (''magenta-6'', JStr ''#cb2b83''),
     (''magenta6'', JStr ''#cb2b83''),
     (''magenta-7'', JStr ''#e0529c''),
     (''magenta7'', JStr ''#e0529c''),
     (''magenta-8'', JStr ''#f37fb7''),
     (''magenta8'', JStr ''#f37fb7''),
     (''magenta-9'', JStr ''#f8a8cc''),
     (''magenta9'', JStr ''#f8a8cc''),
     (''magenta-10'', JStr ''#fad2e3''),
     (''magenta10'', JStr ''#fad2e3''),
     (''pink-1'', JStr ''#291321''),
     (''pink1'', JStr ''#291321''),
     (''pink-2'', JStr ''#40162f''),
     (''pink2'', JStr ''#40162f''),
     (''pink-3'', JStr ''#551c3b''),
     (''pink3'', JStr ''#551c3b''),
     (''pink-4'', JStr ''#75204f''),
     (''pink4'', JStr ''#75204f''),
     (''pink-5'', JStr ''#a02669''),
     (''pink5'', JStr ''#a02669''),
     (''pink-6'', JStr ''#cb2b83''),
     (''pink6'', JStr ''#cb2b83''),
     (''pink-7'', JStr ''#e0529c''),
     (''pink7'', JStr ''#e0529c''),
     (''pink-8'', JStr ''#f37fb7''),
     (''pink8'', JStr ''#f37fb7''),
     (''pink-9'', JStr ''#f8a8cc''),
     (''pink9'', JStr ''#f8a8cc''),
     (''pink-10'', JStr ''#fad2e3''),
     (''pink10'', JStr ''#fad2e3''),
     (''red-1'', JStr ''#2a1215''),
     (''red1'', JStr ''#2a1215''),
     (''red-2'', JStr ''#431418''),
     (''red2'', JStr ''#431418''),
     (''red-3'', JStr ''#58181c''),
     (''red3'', JStr ''#58181c''),
     (''red-4'', JStr ''#791a1f''),
     (''red4'', JStr ''#791a1f''),
     (''red-5'', JStr ''#a61d24''),
     (''red5'', JStr ''#a61d24''),
     (''red-6'', JStr ''#d32029''),
     (''red6'', JStr ''#d32029''),
     (''red-7'', JStr ''#e84749''),
     (''red7'', JStr ''#e84749''),
     (''red-8'', JStr ''#f37370''),
     (''red8'', JStr ''#f37370''),
     (''red-9'', JStr ''#f89f9a''),
     (''red9'', JStr ''#f89f9a''),
     (''red-10'', JStr ''#fac8c3'')]\<close>

definition fixture_fields4 :: obj where
  \<open>fixture_fields4 =
    [(''red10'', JStr ''#fac8c3''),
     (''orange-1'', JStr ''#2b1d11''),
     (''orange1'', JStr ''#2b1d11''),
     (''orange-2'', JStr ''#442a11''),
     (''orange2'', JStr ''#442a11''),
     (''orange-3'', JStr ''#593815''),
     (''orange3'', JStr ''#593815''),
     (''orange-4'', JStr ''#7c4a15''),
     (''orange4'', JStr ''#7c4a15''),
     (''orange-5'', JStr ''#aa6215''),
     (''orange5'', JStr ''#aa6215''),
     (''orange-6'', JStr ''#d87a16''),
     (''orange6'', JStr ''#d87a16''),
     (''orange-7'', JStr ''#e89a3c''),
     (''orange7'', JStr ''#e89a3c''),
     (''orange-8'', JStr ''#f3b765''),
     (''orange8'', JStr ''#f3b765''),
     (''orange-9'', JStr ''#f8cf8d''),
     (''orange9'', JStr ''#f8cf8d''),
     (''orange-10'', JStr ''#fae3b7''),
     (''orange10'', JStr ''#fae3b7''),
     (''yellow-1'', JStr ''#2b2611''),
     (''yellow1'', JStr ''#2b2611''),
     (''yellow-2'', JStr ''#443b11''),
     (''yellow2'', JStr ''#443b11''),
     (''yellow-3'', JStr ''#595014''),
     (''yellow3'', JStr ''#595014''),
     (''yellow-4'', JStr ''#7c6e14''),
     (''yellow4'', JStr ''#7c6e14''),
     (''yellow-5'', JStr ''#aa9514''),
     (''yellow5'', JStr ''#aa9514''),
     (''yellow-6'', JStr ''#d8bd14''),
     (''yellow6'', JStr ''#d8bd14''),
     (''yellow-7'', JStr ''#e8d639''),
     (''yellow7'', JStr ''#e8d639''),
     (''yellow-8'', JStr ''#f3ea62''),
     (''yellow8'', JStr ''#f3ea62''),
     (''yellow-9'', JStr ''#f8f48b''),
     (''yellow9'', JStr ''#f8f48b''),
     (''yellow-10'', JStr ''#fafab5''),
     (''yellow10'', JStr ''#fafab5''),
     (''volcano-1'', JStr ''#2b1611''),
     (''volcano1'', JStr ''#2b1611''),
     (''volcano-2'', JStr ''#441d12''),
     (''volcano2'', JStr ''#441d12''),
     (''volcano-3'', JStr ''#592716''),
     (''volcano3'', JStr ''#592716''),
     (''volcano-4'', JStr ''#7c3118''),
     (''volcano4'', JStr ''#7c3118''),
     (''volcano-5'', JStr ''#aa3e19''),
     (''volcano5'', JStr ''#aa3e19''),
     (''volcano-6'', JStr ''#d84a1b''),
     (''volcano6'', JStr ''#d84a1b''),
     (''volcano-7'', JStr ''#e87040''),
     (''volcano7'', JStr ''#e87040''),
     (''volcano-8'', JStr ''#f3956a''),
     (''volcano8'', JStr ''#f3956a''),
     (''volcano-9'', JStr ''#f8b692''),
     (''volcano9'', JStr ''#f8b692''),
     (''volcano-10'', JStr ''#fad4bc''),
     (''volcano10'', JStr ''#fad4bc''),
     (''geekblue-1'', JStr ''#131629''),
     (''geekblue1'', JStr ''#131629''),
     (''geekblue-2'', JStr ''#161d40'')]\<close>

definition fixture_fields5 :: obj where
  \<open>fixture_fields5 =
    [(''geekblue2'', JStr ''#161d40''),
     (''geekblue-3'', JStr ''#1c2755''),
     (''geekblue3'', JStr ''#1c2755''),
     (''geekblue-4'', JStr ''#203175''),
     (''geekblue4'', JStr ''#203175''),
     (''geekblue-5'', JStr ''#263ea0''),
     (''geekblue5'', JStr ''#263ea0''),
     (''geekblue-6'', JStr ''#2b4acb''),
     (''geekblue6'', JStr ''#2b4acb''),
     (''geekblue-7'', JStr ''#5273e0''),
     (''geekblue7'', JStr ''#5273e0''),
     (''geekblue-8'', JStr ''#7f9ef3''),
     (''geekblue8'', JStr ''#7f9ef3''),
     (''geekblue-9'', JStr ''#a8c1f8''),
     (''geekblue9'', JStr ''#a8c1f8''),
     (''geekblue-10'', JStr ''#d2e0fa''),
     (''geekblue10'', JStr ''#d2e0fa''),
     (''gold-1'', JStr ''#2b2111''),
     (''gold1'', JStr ''#2b2111''),
     (''gold-2'', JStr ''#443111''),
     (''gold2'', JStr ''#443111''),
     (''gold-3'', JStr ''#594214''),
     (''gold3'', JStr ''#594214''),
     (''gold-4'', JStr ''#7c5914''),
     (''gold4'', JStr ''#7c5914''),
     (''gold-5'', JStr ''#aa7714''),
     (''gold5'', JStr ''#aa7714''),
     (''gold-6'', JStr ''#d89614''),
     (''gold6'', JStr ''#d89614''),
     (''gold-7'', JStr ''#e8b339''),
     (''gold7'', JStr ''#e8b339''),
     (''gold-8'', JStr ''#f3cc62''),
     (''gold8'', JStr ''#f3cc62''),
     (''gold-9'', JStr ''#f8df8b''),
     (''gold9'', JStr ''#f8df8b''),
     (''gold-10'', JStr ''#faedb5''),
     (''gold10'', JStr ''#faedb5''),
     (''lime-1'', JStr ''#1f2611''),
     (''lime1'', JStr ''#1f2611''),
     (''lime-2'', JStr ''#2e3c10''),
     (''lime2'', JStr ''#2e3c10''),
     (''lime-3'', JStr ''#3e4f13''),
     (''lime3'', JStr ''#3e4f13''),
     (''lime-4'', JStr ''#536d13''),
     (''lime4'', JStr ''#536d13''),
     (''lime-5'', JStr ''#6f9412''),
     (''lime5'', JStr ''#6f9412''),
     (''lime-6'', JStr ''#8bbb11''),
     (''lime6'', JStr ''#8bbb11''),
     (''lime-7'', JStr ''#a9d134''),
     (''lime7'', JStr ''#a9d134''),
     (''lime-8'', JStr ''#c9e75d''),
     (''lime8'', JStr ''#c9e75d''),
     (''lime-9'', JStr ''#e4f88b''),
     (''lime9'', JStr ''#e4f88b''),
     (''lime-10'', JStr ''#f0fab5''),
     (''lime10'', JStr ''#f0fab5''),
     (''colorTextTertiary'', JStr ''rgba(255, 255, 255, 0.45)''),
     (''colorTextQuaternary'', JStr ''rgba(255, 255, 255, 0.25)''),
     (''colorFill'', JStr ''rgba(255, 255, 255, 0.18)''),
     (''colorFillSecondary'', JStr ''rgba(255, 255, 255, 0.12)''),
     (''colorFillTertiary'', JStr ''rgba(255, 255, 255, 0.08)''),
     (''colorFillQuaternary'', JStr ''rgba(255, 255, 255, 0.04)''),
     (''colorBgLayout'', JStr ''#23232e'')]\<close>

definition fixture_fields6 :: obj where
  \<open>fixture_fields6 =
    [(''colorBgContainer'', JStr ''#353545''),
     (''colorBgElevated'', JStr ''#3d3d51''),
     (''colorBgSpotlight'', JStr ''#5c5c79''),
     (''colorBgBlur'', JStr ''rgba(255, 255, 255, 0.04)''),
     (''colorBorderSecondary'', JStr ''#4d4d65''),
     (''colorPrimaryBg'', JStr ''#111f26''),
     (''colorPrimaryBgHover'', JStr ''#0f2f3c''),
     (''colorPrimaryBorder'', JStr ''#11404f''),
     (''colorPrimaryBorderHover'', JStr ''#10566d''),
     (''colorPrimaryHover'', JStr ''#2dadd1''),
     (''colorPrimaryActive'', JStr ''#0e7495''),
     (''colorPrimaryTextHover'', JStr ''#2dadd1''),
     (''colorPrimaryText'', JStr ''#0c91bc''),
     (''colorPrimaryTextActive'', JStr ''#0e7495''),
     (''colorSuccessBg'', JStr ''#162312''),
     (''colorSuccessBgHover'', JStr ''#1d3712''),
     (''colorSuccessBorder'', JStr ''#274916''),
     (''colorSuccessBorderHover'', JStr ''#306317''),
     (''colorSuccessHover'', JStr ''#306317''),
     (''colorSuccessActive'', JStr ''#3c8618''),
     (''colorSuccessTextHover'', JStr ''#6abe39''),
     (''colorSuccessText'', JStr ''#49aa19''),
     (''colorSuccessTextActive'', JStr ''#3c8618''),
     (''colorErrorBg'', JStr ''#2c1618''),
     (''colorErrorBgHover'', JStr ''#451d1f''),
     (''colorErrorBorder'', JStr ''#5b2526''),
     (''colorErrorBorderHover'', JStr ''#7e2e2f''),
     (''colorErrorHover'', JStr ''#e86e6b''),
     (''colorErrorActive'', JStr ''#ad393a''),
     (''colorErrorTextHover'', JStr ''#e86e6b''),
     (''colorErrorText'', JStr ''#dc4446''),
     (''colorErrorTextActive'', JStr ''#ad393a''),
     (''colorWarningBg'', JStr ''#2b2111''),
     (''colorWarningBgHover'', JStr ''#443111''),
     (''colorWarningBorder'', JStr ''#594214''),
     (''colorWarningBorderHover'', JStr ''#7c5914''),
     (''colorWarningHover'', JStr ''#7c5914''),
     (''colorWarningActive'', JStr ''#aa7714''),
     (''colorWarningTextHover'', JStr ''#e8b339''),
     (''colorWarningText'', JStr ''#d89614''),
     (''colorWarningTextActive'', JStr ''#aa7714''),
     (''colorInfoBg'', JStr ''#111a2c''),
     (''colorInfoBgHover'', JStr ''#112545''),
     (''colorInfoBorder'', JStr ''#15325b''),
     (''colorInfoBorderHover'', JStr ''#15417e''),
     (''colorInfoHover'', JStr ''#15417e''),
     (''colorInfoActive'', JStr ''#1554ad''),
     (''colorInfoTextHover'', JStr ''#3c89e8''),
     (''colorInfoText'', JStr ''#1668dc''),
     (''colorInfoTextActive'', JStr ''#1554ad''),
     (''colorLinkHover'', JStr ''#15417e''),
     (''colorLinkActive'', JStr ''#1554ad''),
     (''colorBgMask'', JStr ''rgba(0, 0, 0, 0.45)''),
     (''colorWhite'', JStr ''#fff''),
     (''fontSizeSM'', JNum 10),
     (''fontSizeXL'', JNum 16),
     (''fontSizeHeading1'', JNum 32),
     (''fontSizeHeading2'', JNum 26),
     (''fontSizeHeading3'', JNum 20),
     (''fontSizeHeading4'', JNum 16),
     (''fontSizeHeading5'', JNum 14),
     (''lineHeight'', JNum 1.6666666666666667),
     (''lineHeightLG'', JNum 1.5714285714285714),
     (''lineHeightSM'', JNum 1.8)]\<close>

definition fixture_fields7 :: obj where
  \<open>fixture_fields7 =
    [(''fontHeight'', JNum 20),
     (''fontHeightLG'', JNum 22),
     (''fontHeightSM'', JNum 18),
     (''lineHeightHeading1'', JNum 1.25),
     (''lineHeightHeading2'', JNum 1.3076923076923077),
     (''lineHeightHeading3'', JNum 1.4),
     (''lineHeightHeading4'', JNum 1.5),
     (''lineHeightHeading5'', JNum 1.5714285714285714),
     (''sizeXXL'', JNum 48),
     (''sizeXL'', JNum 32),
     (''sizeLG'', JNum 16),
     (''sizeMD'', JNum 16),
     (''sizeMS'', JNum 12),
     (''size'', JNum 8),
     (''sizeSM'', JNum 8),
     (''sizeXS'', JNum 4),
     (''sizeXXS'', JNum 4),
     (''controlHeightSM'', JNum 21),
     (''controlHeightXS'', JNum 14),
     (''controlHeightLG'', JNum 35),
     (''motionDurationFast'', JStr ''0s''),
     (''motionDurationMid'', JStr ''0s''),
     (''motionDurationSlow'', JStr ''0s''),
     (''lineWidthBold'', JNum 2),
     (''borderRadiusXS'', JNum 2),
     (''borderRadiusSM'', JNum 4),
     (''borderRadiusLG'', JNum 8),
     (''borderRadiusOuter'', JNum 4),
     (''colorFillContent'', JStr ''rgba(255, 255, 255, 0.12)''),
     (''colorFillContentHover'', JStr ''rgba(255, 255, 255, 0.18)''),
     (''colorFillAlter'', JStr ''rgba(255, 255, 255, 0.04)''),
     (''colorBgContainerDisabled'', JStr ''rgba(255, 255, 255, 0.08)''),
     (''colorBorderBg'', JStr ''#353545''),
     (''colorSplit'', JStr ''rgba(186, 186, 247, 0.18)''),
     (''colorTextPlaceholder'', JStr ''rgba(255, 255, 255, 0.25)''),
     (''colorTextHeading'', JStr ''#ffffffa6''),
     (''colorTextLabel'', JStr ''#ffffff73''),
     (''colorTextDescription'', JStr ''rgba(255, 255, 255, 0.45)''),
     (''colorTextLightSolid'', JStr ''#fff''),
     (''colorHighlight'', JStr ''#dc4446''),
     (''colorBgTextHover'', JStr ''rgba(255, 255, 255, 0.12)''),
     (''colorBgTextActive'', JStr ''rgba(255, 255, 255, 0.18)''),
     (''colorErrorOutline'', JStr ''rgba(39, 5, 0, 0.65)''),
     (''colorWarningOutline'', JStr ''rgba(40, 26, 0, 0.75)''),
     (''fontSizeIcon'', JNum 10),
     (''lineWidthFocus'', JNum 4),
     (''controlOutlineWidth'', JNum 2),
     (''controlInteractiveSize'', JNum 14),
     (''controlItemBgHover'', JStr ''rgba(255, 255, 255, 0.08)''),
     (''controlItemBgActive'', JStr ''#111f26''),
     (''controlItemBgActiveHover'', JStr ''#0f2f3c''),
     (''controlItemBgActiveDisabled'', JStr ''rgba(255, 255, 255, 0.18)''),
     (''controlTmpOutline'', JStr ''rgba(255, 255, 255, 0.04)''),
     (''controlOutline'', JStr ''rgba(0, 21, 23, 0.68)''),
     (''fontWeightStrong'', JNum 600),
     (''opacityLoading'', JNum 0.65),
     (''linkDecoration'', JStr ''none''),
     (''linkHoverDecoration'', JStr ''none''),
     (''linkFocusDecoration'', JStr ''none''),
     (''controlPaddingHorizontal'', JNum 12),
     (''controlPaddingHorizontalSM'', JNum 8),
     (''paddingXXS'', JNum 4),
     (''paddingXS'', JNum 4),
     (''paddingSM'', JNum 8)]\<close>

definition fixture_fields8 :: obj where
  \<open>fixture_fields8 =
    [(''padding'', JNum 8),
     (''paddingMD'', JNum 16),
     (''paddingLG'', JNum 16),
     (''paddingXL'', JNum 32),
     (''paddingContentHorizontalLG'', JNum 16),
     (''paddingContentVerticalLG'', JNum 12),
     (''paddingContentHorizontal'', JNum 12),
     (''paddingContentVertical'', JNum 8),
     (''paddingContentHorizontalSM'', JNum 8),
     (''paddingContentVerticalSM'', JNum 4),
     (''marginXXS'', JNum 4),
     (''marginXS'', JNum 4),
     (''marginSM'', JNum 8),
     (''margin'', JNum 8),
     (''marginMD'', JNum 16),
     (''marginLG'', JNum 16),
     (''marginXL'', JNum 32),
     (''marginXXL'', JNum 48),
     (''boxShadow'', JStr ''\<newline>      0 6px 16px 0 rgba(0, 0, 0, 0.08),\<newline>      0 3px 6px -4px rgba(0, 0, 0, 0.12),\<newline>      0 9px 28px 8px rgba(0, 0, 0, 0.05)\<newline>    ''),
     (''boxShadowSecondary'', JStr ''\<newline>      0 6px 16px 0 rgba(0, 0, 0, 0.08),\<newline>      0 3px 6px -4px rgba(0, 0, 0, 0.12),\<newline>      0 9px 28px 8px rgba(0, 0, 0, 0.05)\<newline>    ''),
     (''boxShadowTertiary'', JStr ''\<newline>      0 1px 2px 0 rgba(0, 0, 0, 0.03),\<newline>      0 1px 6px -1px rgba(0, 0, 0, 0.02),\<newline>      0 2px 4px 0 rgba(0, 0, 0, 0.02)\<newline>    ''),
     (''screenXS'', JNum 480),
     (''screenXSMin'', JNum 480),
     (''screenXSMax'', JNum 575),
     (''screenSM'', JNum 576),
     (''screenSMMin'', JNum 576),
     (''screenSMMax'', JNum 767),
     (''screenMD'', JNum 768),
     (''screenMDMin'', JNum 768),
     (''screenMDMax'', JNum 991),
     (''screenLG'', JNum 992),
     (''screenLGMin'', JNum 992),
     (''screenLGMax'', JNum 1199),
     (''screenXL'', JNum 1200),
     (''screenXLMin'', JNum 1200),
     (''screenXLMax'', JNum 1599),
     (''screenXXL'', JNum 1600),
     (''screenXXLMin'', JNum 1600),
     (''boxShadowPopoverArrow'', JStr ''2px 2px 5px rgba(0, 0, 0, 0.05)''),
     (''boxShadowCard'', JStr ''\<newline>      0 1px 2px -2px rgba(0, 0, 0, 0.16),\<newline>      0 3px 6px 0 rgba(0, 0, 0, 0.12),\<newline>      0 5px 12px 4px rgba(0, 0, 0, 0.09)\<newline>    ''),
     (''boxShadowDrawerRight'', JStr ''\<newline>      -6px 0 16px 0 rgba(0, 0, 0, 0.08),\<newline>      -3px 0 6px -4px rgba(0, 0, 0, 0.12),\<newline>      -9px 0 28px 8px rgba(0, 0, 0, 0.05)\<newline>    ''),
     (''boxShadowDrawerLeft'', JStr ''\<newline>      6px 0 16px 0 rgba(0, 0, 0, 0.08),\<newline>      3px 0 6px -4px rgba(0, 0, 0, 0.12),\<newline>      9px 0 28px 8px rgba(0, 0, 0, 0.05)\<newline>    ''),
     (''boxShadowDrawerUp'', JStr ''\<newline>      0 6px 16px 0 rgba(0, 0, 0, 0.08),\<newline>      0 3px 6px -4px rgba(0, 0, 0, 0.12),\<newline>      0 9px 28px 8px rgba(0, 0, 0, 0.05)\<newline>    ''),
     (''boxShadowDrawerDown'', JStr ''\<newline>      0 -6px 16px 0 rgba(0, 0, 0, 0.08),\<newline>      0 -3px 6px -4px rgba(0, 0, 0, 0.12),\<newline>      0 -9px 28px 8px rgba(0, 0, 0, 0.05)\<newline>    ''),
     (''boxShadowTabsOverflowLeft'', JStr ''inset 10px 0 8px -8px rgba(0, 0, 0, 0.08)''),
     (''boxShadowTabsOverflowRight'', JStr ''inset -10px 0 8px -8px rgba(0, 0, 0, 0.08)''),
     (''boxShadowTabsOverflowTop'', JStr ''inset 0 10px 8px -8px rgba(0, 0, 0, 0.08)''),
     (''boxShadowTabsOverflowBottom'', JStr ''inset 0 -10px 8px -8px rgba(0, 0, 0, 0.08)''),
     (''Menu'', JObj fixture_Menu),
     (''Card'', JObj fixture_Card),
     (''Drawer'', JObj fixture_Drawer),
     (''Layout'', JObj fixture_Layout),
     (''Modal'', JObj fixture_Modal),
     (''Button'', JObj fixture_Button),
     (''Tabs'', JObj fixture_Tabs),
     (''Table'', JObj fixture_Table),
     (''Switch'', JObj fixture_Switch),
     (''Select'', JObj fixture_Select),
     (''_tokenKey'', JStr ''mr2whb'')]\<close>

definition fixture_realToken :: obj where
  \<open>fixture_realToken =
    fixture_fields1 @
    fixture_fields2 @
    fixture_fields3 @
    fixture_fields4 @
    fixture_fields5 @
    fixture_fields6 @
    fixture_fields7 @
    fixture_fields8\<close>

definition fixture_token :: obj where
  \<open>fixture_token =
    fixture_fields1 @
    fixture_fields2 @
    fixture_fields3 @
    fixture_fields4 @
    fixture_fields5 @
    fixture_fields6 @
    fixture_fields7 @
    fixture_fields8 @
    [(''_themeKey'', JStr ''mr2whb''),
     (''_hashId'', JStr ''css-dev-only-do-not-override-fymbro'')]\<close>

definition fixture :: token_cache_value where
  \<open>fixture =
    (fixture_token, ''css-dev-only-do-not-override-fymbro'', fixture_realToken, [], [])\<close>

section \<open>The polled token\<close>

definition rerenderTime :: nat where
  "rerenderTime = 1000"

text \<open>
  The hooks and components below schedule timers whose callbacks call a state setter of
  the rendering library with a random number, which makes the owning component render
  again. A timer is modelled by the setter it calls and its delay in milliseconds.
\<close>

datatype setter = SetArgUpdate | SetCacheUpdate | SetRenderNonce

datatype timer = SetTimeout setter nat | SetInterval setter nat

text \<open>
  The module as loaded: the registry is empty and \<^verbatim>\<open>cachedToken\<close> is the literal.
  No caller has an object with properties yet.
\<close>

definition module_init :: "'c \<Rightarrow> style_tag list option \<Rightarrow> 'c world" where
  "module_init cache doc =
     \<lparr>tokenKeys = [], document = doc, cacheArgs = None, setArgUpdate = False,
      cachedToken = fixture, globalCache = cache, held = (\<lambda>r. [])\<rparr>"

text \<open>
  The default export, one render of a consumer. \<^verbatim>\<open>args[0]\<close> is the theme, and
  \<^verbatim>\<open>!==\<close> compares it by reference. The result is the returned value together
  with the timers that the render body starts.
\<close>

definition useCacheToken :: "hook_args \<Rightarrow> 'c world \<Rightarrow> (token_cache_value \<times> timer list) \<times> 'c world" where
  "useCacheToken args s =
     (let changed = (case cacheArgs s of
                       None \<Rightarrow> True
                     | Some old \<Rightarrow> theme_ref (arg_theme args) \<noteq> theme_ref (arg_theme old));
          s1 = (if changed then s\<lparr>cacheArgs := Some args\<rparr> else s);
          timers = (if changed \<and> setArgUpdate s then [SetTimeout SetArgUpdate 50] else [])
      in ((cachedToken s1, timers), s1))"

text \<open>The interval that the mount effect of the default export starts.\<close>

definition useCacheToken_mounted :: timer where
  "useCacheToken_mounted = SetInterval SetCacheUpdate rerenderTime"

text \<open>Renders of several consumers, one after the other.\<close>

fun useCacheToken_all :: "hook_args list \<Rightarrow> 'c world \<Rightarrow> token_cache_value list \<times> 'c world" where
  "useCacheToken_all [] s = ([], s)"
| "useCacheToken_all (args # rest) s =
     (case useCacheToken args s of
        ((r, _), s1) \<Rightarrow> (case useCacheToken_all rest s1 of (rs, s2) \<Rightarrow> (r # rs, s2)))"

text \<open>
  One render of \<^verbatim>\<open>PollCacheTokenHelper\<close>. Spreading \<^verbatim>\<open>cacheArgs\<close> while it
  is \<^verbatim>\<open>null\<close> throws. The result of the helper hook is an array, which is truthy,
  so it is always stored.
\<close>

definition PollCacheTokenHelper ::
  "'c global_cache_hook \<Rightarrow> collab \<Rightarrow> string option \<Rightarrow> style_context \<Rightarrow> 'c world
     \<Rightarrow> js_error + 'c world" where
  "PollCacheTokenHelper useGlobalCache cb node_env ctx s =
     (case cacheArgs s of
        None \<Rightarrow> Inl TypeError
      | Some args \<Rightarrow>
          (case useCacheTokenHelper useGlobalCache cb node_env ctx
                  (arg_theme args) (arg_tokens args) (arg_option args) s of
             (res, s1) \<Rightarrow> Inr (s1\<lparr>cachedToken := res\<rparr>)))"

definition PollCacheTokenHelper_mounted :: timer where
  "PollCacheTokenHelper_mounted = SetInterval SetRenderNonce rerenderTime"

text \<open>
  One render of \<^verbatim>\<open>PollCacheToken\<close>: it stores its state setter and renders the
  helper component when \<^verbatim>\<open>cacheArgs\<close> is set.
\<close>

definition PollCacheToken ::
  "'c global_cache_hook \<Rightarrow> collab \<Rightarrow> string option \<Rightarrow> style_context \<Rightarrow> 'c world
     \<Rightarrow> js_error + 'c world" where
  "PollCacheToken useGlobalCache cb node_env ctx s =
     (let s1 = s\<lparr>setArgUpdate := True\<rparr>
      in case cacheArgs s1 of
           None \<Rightarrow> Inr s1
         | Some _ \<Rightarrow> PollCacheTokenHelper useGlobalCache cb node_env ctx s1)"

section \<open>The derivation in the words of the specification\<close>

text \<open>
  The specification describes the derivation as: merge all raw fragments left to right,
  later fragments winning on key conflicts; invoke the derivation of the theme; merge the
  override object on top, shallowly; optionally apply the reformatting pass, whose result
  is then the derived token. Merging
  \<open>b\<close> onto \<open>a\<close> keeps the properties of \<open>a\<close> in place, with the value of \<open>b\<close>
  where \<open>b\<close> has the property, and appends the properties that only \<open>b\<close> has.
\<close>

definition later_wins :: "obj \<Rightarrow> obj \<Rightarrow> obj" where
  "later_wins a b =
     map (\<lambda>(k, v). (k, case map_of b k of Some v' \<Rightarrow> v' | None \<Rightarrow> v)) a @
     filter (\<lambda>(k, v). k \<notin> fst ` set a) b"

definition derive_spec ::
  "theme \<Rightarrow> obj list \<Rightarrow> obj \<Rightarrow> (obj \<Rightarrow> token_ref) option \<Rightarrow> token_ref" where
  "derive_spec th fragments overrideObject formatToken =
     (let merged = foldl later_wins [] fragments;
          base = getDerivativeToken th merged;
          overridden = later_wins base overrideObject
      in case formatToken of None \<Rightarrow> Fresh overridden | Some f \<Rightarrow> f overridden)"

section \<open>Sample inputs\<close>

text \<open>
  Concrete inputs to run the operations on: a world with nothing recorded and no
  document, stand-ins for the collaborators (the selector engine of the stand-in throws
  at every selector it is given), a theme whose derivation is the identity, and a few
  options.
\<close>

definition world0 :: "unit world" where
  "world0 = \<lparr>tokenKeys = [], document = None, cacheArgs = None, setArgUpdate = False,
             cachedToken = ([], [], [], [], []), globalCache = (), held = (\<lambda>r. [])\<rparr>"

definition cb0 :: collab where
  "cb0 = \<lparr>hash = (\<lambda>str. ''h'' @ str),
          token2key = (\<lambda>tok salt. salt @ ''_'' @ concat (map fst tok)),
          flattenToken = (\<lambda>tok. concat (map fst tok)),
          flattenCssVar = (\<lambda>cv. case cv_key cv of None \<Rightarrow> [] | Some k \<Rightarrow> ''key'' @ k),
          transformToken = (\<lambda>tok key config.
             (map (\<lambda>(k, v). (k, JStr (''var(--'' @ k @ '')''))) tok,
              ''.'' @ (case key of None \<Rightarrow> ''undefined'' | Some k \<Rightarrow> k) @ ''{'' @
                concat (map (\<lambda>(k, v). ''--'' @ k @ '';'') tok) @ ''}'')),
          styleAttrs = (\<lambda>tokenKey styleId attrs. concat (map (\<lambda>(a, v). a @ ''='' @ v @ '' '') attrs)),
          num2str = (\<lambda>n. ''0''),
          css_select = (\<lambda>selector. Inl SyntaxError),
          ATTR_MARK = ''data-css-hash'',
          ATTR_TOKEN = ''data-token-hash''\<rparr>"

definition th0 :: theme where
  "th0 = \<lparr>theme_ref = 0, theme_id = KNum 0, getDerivativeToken = (\<lambda>tok. tok)\<rparr>"

definition ctx0 :: style_context where
  "ctx0 = \<lparr>ctx_instanceId = ''i'', ctx_container = None\<rparr>"

definition cv0 :: cssVar_option where
  "cv0 = \<lparr>cv_prefix = None, cv_unitless = None, cv_ignore = None, cv_preserve = None,
          cv_key = Some ''k''\<rparr>"

definition tokA :: obj where
  "tokA = [(''a'', JNum 1)]"

definition opt_css :: cache_option where
  "opt_css = default_option\<lparr>opt_cssVar := Some cv0\<rparr>"

definition compute0 :: "obj \<Rightarrow> obj \<Rightarrow> theme \<Rightarrow> token_ref" where
  "compute0 originToken overrideToken th = Fresh [(''b'', JNum 2)]"

definition opt_custom :: cache_option where
  "opt_custom = default_option\<lparr>opt_getComputedToken := Some compute0\<rparr>"

definition opt_override :: cache_option where
  "opt_override = default_option\<lparr>opt_override := Some [(''b'', JNum 9)]\<rparr>"

definition entry0 :: token_cache_value where
  "entry0 = fst (computeToken cb0 None th0 tokA opt_css world0)"

text \<open>A global cache that misses every time: it runs the compute callback.\<close>

definition cache_miss :: "unit global_cache_hook" where
  "cache_miss prefix keyPath compute onRemove onEffect s = compute s"

definition args0 :: hook_args where
  "args0 = \<lparr>arg_theme = th0, arg_tokens = [tokA], arg_option = None\<rparr>"

definition world_a :: "unit world" where
  "world_a = world0\<lparr>tokenKeys := [(''a'', 1)],
                     document := Some [\<lparr>st_token = Some ''a'', st_instance = Some ''i'', st_css = ''.a{}''\<rparr>]\<rparr>"

text \<open>
  A format function that hands back the same kept object every time, a world in which
  that object holds one property, and a content hash that keeps only the first character.
\<close>

definition format_held :: "obj \<Rightarrow> token_ref" where
  "format_held mergedToken = Held 0"

definition opt_reuse :: cache_option where
  "opt_reuse = default_option\<lparr>opt_formatToken := Some format_held\<rparr>"

definition world_held :: "unit world" where
  "world_held = world0\<lparr>held := (\<lambda>r. tokA)\<rparr>"

definition cb_short :: collab where
  "cb_short = cb0\<lparr>hash := take 1\<rparr>"



text \<open>
  The state after one run on the kept object, and the cache value of a run on a token of
  one property.
\<close>

definition world_rerun :: "unit world" where
  "world_rerun = snd (computeToken cb0 None th0 tokA opt_reuse world_held)"

definition entry_plain :: token_cache_value where
  "entry_plain = fst (computeToken cb0 None th0 tokA default_option world0)"

section \<open>Properties of the usage counter\<close>




























section \<open>Properties of the token derivation\<close>

lemma obj_get_set:
  "obj_get (obj_set k v ob) k' = (if k' = k then Some v else obj_get ob k')"
  by (simp add: obj_get_def obj_set_def update_conv')

lemma computeToken_value:
  "fst (computeToken cb node_env th m option s) =
     (let pre = fst (cssVarStep cb option (deref (held s) (derivedToken th m option)));
          tokenKey = token2key cb pre (salt_of option);
          themeKey = (case cssVar_key option of Some k \<Rightarrow> k | None \<Rightarrow> tokenKey);
          hashId = hashPrefix node_env @ ''-'' @ hash cb tokenKey;
          actualToken0 = obj_spread (deref (held s) (derivedToken th m option))
      in (obj_set ''_hashId'' (JStr hashId)
            (obj_set ''_themeKey'' (JStr themeKey) (obj_set ''_tokenKey'' (JStr tokenKey) pre)),
          hashId,
          obj_set ''_tokenKey'' (JStr (token2key cb actualToken0 (salt_of option))) actualToken0,
          snd (cssVarStep cb option (deref (held s) (derivedToken th m option))),
          (case cssVar_key option of Some k \<Rightarrow> k | None \<Rightarrow> [])))"
  by (simp add: computeToken_def Let_def case_prod_beta)

lemma computeToken_world:
  "snd (computeToken cb node_env th m option s) =
     (let s1 = recordCleanToken
                 (case cssVar_key option of Some k \<Rightarrow> k
                  | None \<Rightarrow> token2key cb
                      (fst (cssVarStep cb option (deref (held s) (derivedToken th m option))))
                      (salt_of option)) s
      in case (opt_cssVar option, derivedToken th m option) of
           (None, Held r) \<Rightarrow>
             s1\<lparr>held := (held s1)(r := fst (fst (computeToken cb node_env th m option s)))\<rparr>
         | _ \<Rightarrow> s1)"
  by (simp add: computeToken_def Let_def case_prod_beta split: option.split token_ref.split)

lemmas model_defs = computeToken_value Let_def cssVarStep_def derivedToken_def getComputedToken_def
  override_of_def salt_of_def EMPTY_OVERRIDE_def cssVar_key_def obj_assign_def obj_set_def
  obj_get_def obj_spread_def hashPrefix_def mergeTokens_def Object_assign_def

text \<open>
  Claim C7. The \<^verbatim>\<open>_themeKey\<close> attached to the derived token is the key of the
  \<^verbatim>\<open>cssVar\<close> option when the option supplies one, and the computed token key (the
  attached \<^verbatim>\<open>_tokenKey\<close>) otherwise.
\<close>

theorem themeKey_cssVar_key_or_tokenKey:
  "(\<forall>cv k. opt_cssVar option = Some cv \<and> cv_key cv = Some k \<longrightarrow>
      obj_get (fst (fst (computeToken cb node_env th m option s))) ''_themeKey'' = Some (JStr k)) \<and>
   (cssVar_key option = None \<longrightarrow>
      obj_get (fst (fst (computeToken cb node_env th m option s))) ''_themeKey'' =
        obj_get (fst (fst (computeToken cb node_env th m option s))) ''_tokenKey'') \<and>
   obj_get (fst (fst (computeToken cb node_env th m option s))) ''_tokenKey'' =
     Some (JStr (token2key cb
       (fst (cssVarStep cb option (deref (held s) (derivedToken th m option)))) (salt_of option)))"
  by (simp add: computeToken_value Let_def obj_get_set cssVar_key_def)

text \<open>The theorem at an option with the key \<open>k\<close>, and at the empty option.\<close>

theorem themeKey_cssVar_key_or_tokenKey_witness:
  "obj_get (fst (fst (computeToken cb0 None th0 tokA opt_css world0))) ''_themeKey'' = Some (JStr ''k'') \<and>
   obj_get (fst (fst (computeToken cb0 None th0 tokA default_option world0))) ''_themeKey'' = Some (JStr ''_a'')"
  using themeKey_cssVar_key_or_tokenKey [where option = opt_css and cb = cb0 and node_env = None
      and th = th0 and m = tokA and s = world0]
    themeKey_cssVar_key_or_tokenKey [where option = default_option and cb = cb0 and node_env = None
      and th = th0 and m = tokA and s = world0]
  by (simp add: cb0_def th0_def tokA_def default_option_def world0_def opt_css_def cv0_def
      model_defs)

text \<open>
  Claim C10. The hash identifier is the prefix, a dash and the content hash of the token
  key; the prefix is \<^verbatim>\<open>css\<close> in a production build and
  \<^verbatim>\<open>css-dev-only-do-not-override\<close> in any other, so for the same token key the two
  build modes give different identifiers.
\<close>

theorem hashId_prefix_by_build_mode:
  "fst (snd (fst (computeToken cb (Some ''production'') th m option s))) =
     ''css-'' @ hash cb (token2key cb
       (fst (cssVarStep cb option (deref (held s) (derivedToken th m option)))) (salt_of option)) \<and>
   (node_env \<noteq> Some ''production'' \<longrightarrow>
      fst (snd (fst (computeToken cb node_env th m option s))) =
        ''css-dev-only-do-not-override-'' @
          hash cb (token2key cb
            (fst (cssVarStep cb option (deref (held s) (derivedToken th m option)))) (salt_of option)) \<and>
      fst (snd (fst (computeToken cb node_env th m option s))) \<noteq>
        fst (snd (fst (computeToken cb (Some ''production'') th m option s))) \<and>
      obj_get (fst (fst (computeToken cb node_env th m option s))) ''_tokenKey'' =
        obj_get (fst (fst (computeToken cb (Some ''production'') th m option s))) ''_tokenKey'')"
  by (simp add: computeToken_value Let_def hashPrefix_def obj_get_set)

text \<open>The theorem at a development build.\<close>

theorem hashId_prefix_by_build_mode_witness:
  "fst (snd (fst (computeToken cb0 (Some ''production'') th0 tokA default_option world0))) = ''css-h_a'' \<and>
   fst (snd (fst (computeToken cb0 (Some ''development'') th0 tokA default_option world0))) =
     ''css-dev-only-do-not-override-h_a''"
  using hashId_prefix_by_build_mode [where option = default_option and cb = cb0
      and node_env = "Some ''development''" and th = th0 and m = tokA and s = world0]
  by (simp add: cb0_def th0_def tokA_def default_option_def world0_def model_defs)

lemma filter_update_meta:
  "k \<in> K \<Longrightarrow> filter (\<lambda>p. fst p \<notin> K) (AList.update k v ob) = filter (\<lambda>p. fst p \<notin> K) ob"
  by (induction ob) auto

lemma filter_obj_set_meta:
  "k \<in> K \<Longrightarrow> filter (\<lambda>p. fst p \<notin> K) (obj_set k v ob) = filter (\<lambda>p. fst p \<notin> K) ob"
  by (simp add: obj_set_def filter_update_meta)

lemma filter_obj_set_same:
  "filter (\<lambda>p. fst p \<noteq> k) (obj_set k v ob) = filter (\<lambda>p. fst p \<noteq> k) ob"
  using filter_obj_set_meta [of k "{k}" v ob] by simp

lemma filter_no_meta:
  "K \<inter> fst ` set ob = {} \<Longrightarrow> filter (\<lambda>p. fst p \<notin> K) ob = ob"
  by (rule filter_True) auto

lemma strip_attached:
  "k1 \<in> K \<Longrightarrow> k2 \<in> K \<Longrightarrow> k3 \<in> K \<Longrightarrow>
   filter (\<lambda>p. fst p \<notin> K) (obj_set k3 x (obj_set k2 y (obj_set k1 z pre))) =
   filter (\<lambda>p. fst p \<notin> K) pre"
  by (simp only: filter_obj_set_meta)

text \<open>
  Claim C5, as the code has it. In a run, the token key is the key of the token as it is
  before this run attaches \<^verbatim>\<open>_tokenKey\<close>, \<^verbatim>\<open>_themeKey\<close> and
  \<^verbatim>\<open>_hashId\<close>, the hash identifier is derived from that key, and the key of the real
  token is computed over the copy before its \<^verbatim>\<open>_tokenKey\<close> is attached. When the
  token that is hashed carries no properties of these three names, taking the attached
  properties away from the returned token gives back what was hashed. Properties of these
  names that the token carries already are hashed like any other.
\<close>

theorem metadata_not_hashed:
  "let v = fst (computeToken cb node_env th m option s);
       pre = fst (cssVarStep cb option (deref (held s) (derivedToken th m option)));
       actual0 = obj_spread (deref (held s) (derivedToken th m option));
       meta = {''_tokenKey'', ''_themeKey'', ''_hashId''}
   in obj_get (fst v) ''_tokenKey'' = Some (JStr (token2key cb pre (salt_of option))) \<and>
      fst (snd v) = hashPrefix node_env @ ''-'' @ hash cb (token2key cb pre (salt_of option)) \<and>
      obj_get (fst (snd (snd v))) ''_tokenKey'' = Some (JStr (token2key cb actual0 (salt_of option))) \<and>
      filter (\<lambda>p. fst p \<notin> meta) (fst v) = filter (\<lambda>p. fst p \<notin> meta) pre \<and>
      filter (\<lambda>p. fst p \<noteq> ''_tokenKey'') (fst (snd (snd v))) =
        filter (\<lambda>p. fst p \<noteq> ''_tokenKey'') actual0 \<and>
      (meta \<inter> fst ` set pre = {} \<longrightarrow> filter (\<lambda>p. fst p \<notin> meta) (fst v) = pre) \<and>
      (''_tokenKey'' \<notin> fst ` set actual0 \<longrightarrow>
         filter (\<lambda>p. fst p \<noteq> ''_tokenKey'') (fst (snd (snd v))) = actual0)"
proof -
  define pre where "pre = fst (cssVarStep cb option (deref (held s) (derivedToken th m option)))"
  define actual0 where "actual0 = obj_spread (deref (held s) (derivedToken th m option))"
  define meta where "meta = {''_tokenKey'', ''_themeKey'', ''_hashId''}"
  have strip: "filter (\<lambda>p. fst p \<notin> meta) (obj_set ''_hashId'' x (obj_set ''_themeKey'' y
                 (obj_set ''_tokenKey'' z pre))) = filter (\<lambda>p. fst p \<notin> meta) pre" for x y z
    by (rule strip_attached) (simp_all add: meta_def)
  have a: "meta \<inter> fst ` set pre = {} \<Longrightarrow> filter (\<lambda>p. fst p \<notin> meta) pre = pre"
    by (rule filter_no_meta)
  have b: "''_tokenKey'' \<notin> fst ` set actual0 \<Longrightarrow>
      filter (\<lambda>p. fst p \<noteq> ''_tokenKey'') actual0 = actual0"
    by (rule filter_True) force
  show ?thesis
    unfolding Let_def computeToken_value pre_def [symmetric] actual0_def [symmetric]
      meta_def [symmetric]
    using a b
    by (simp add: obj_get_set strip filter_obj_set_same)
qed

text \<open>The theorem at a token of one property.\<close>

theorem metadata_not_hashed_witness:
  "filter (\<lambda>p. fst p \<notin> {''_tokenKey'', ''_themeKey'', ''_hashId''})
     (fst (fst (computeToken cb0 None th0 tokA default_option world0))) = tokA \<and>
   obj_get (fst (fst (computeToken cb0 None th0 tokA default_option world0))) ''_tokenKey'' =
     Some (JStr (token2key cb0 tokA []))"
  using metadata_not_hashed [where option = default_option and cb = cb0 and node_env = None
      and th = th0 and m = tokA and s = world0]
  by (simp add: cb0_def th0_def tokA_def default_option_def world0_def model_defs)

text \<open>
  Claim C5 as stated fails. A format function hands back an object that the caller
  keeps: the first run writes the three properties into it, and the second run computes
  the token key over them. The same happens without any reuse when a token that carries
  the properties comes in as a fragment.
\<close>

theorem reused_token_hashed_counterexample:
  "held world_rerun 0 =
     [(''a'', JNum 1), (''_tokenKey'', JStr ''_a''), (''_themeKey'', JStr ''_a''),
      (''_hashId'', JStr ''css-dev-only-do-not-override-h_a'')] \<and>
   obj_get (fst (fst (computeToken cb0 None th0 tokA opt_reuse world_rerun))) ''_tokenKey'' =
     Some (JStr (token2key cb0 (held world_rerun 0) [])) \<and>
   token2key cb0 (held world_rerun 0) [] = ''_a_tokenKey_themeKey_hashId'' \<and>
   obj_get (fst (fst (computeToken cb0 None th0 (mergeTokens [fst entry_plain]) default_option
     world0))) ''_tokenKey'' = Some (JStr (token2key cb0 (fst entry_plain) [])) \<and>
   map fst (fst entry_plain) = [''a'', ''_tokenKey'', ''_themeKey'', ''_hashId'']"
  by (simp add: world_rerun_def entry_plain_def computeToken_world world_held_def opt_reuse_def
      format_held_def recordCleanToken_def cb0_def th0_def tokA_def default_option_def world0_def
      model_defs)

lemma derivedToken_salt:
  "derivedToken th m (option\<lparr>opt_salt := x\<rparr>) = derivedToken th m option"
  by (simp add: derivedToken_def override_of_def split: option.split)

lemma cssVarStep_salt:
  "cssVarStep cb (option\<lparr>opt_salt := x\<rparr>) tok = cssVarStep cb option tok"
  by (simp add: cssVarStep_def)

lemma cssVar_key_salt:
  "cssVar_key (option\<lparr>opt_salt := x\<rparr>) = cssVar_key option"
  by (simp add: cssVar_key_def)

text \<open>
  Claim C4, as the code has it. Two runs of the compute callback on the same inputs
  return the same cache value, token key and hash identifier included, whenever the
  derived object holds the same properties at the start of both runs, as it always does
  when it is a new object. With another salt and nothing else changed, the properties of
  the token other than the attached ones, the real token without its key, the style text
  and the variable key are the same, and the hash identifier differs exactly when the
  content hashes of the two token keys differ.
\<close>

theorem derivation_deterministic_and_salted:
  fixes sa :: "'a world" and sb :: "'b world"
  shows
  "(deref (held sa) (derivedToken th m option) = deref (held sb) (derivedToken th m option) \<longrightarrow>
      fst (computeToken cb node_env th m option sa) = fst (computeToken cb node_env th m option sb)) \<and>
   (\<forall>ob. derivedToken th m option = Fresh ob \<longrightarrow>
      fst (computeToken cb node_env th m option sa) = fst (computeToken cb node_env th m option sb)) \<and>
   (let v1 = fst (computeToken cb node_env th m (option\<lparr>opt_salt := Some salta\<rparr>) sa);
        v2 = fst (computeToken cb node_env th m (option\<lparr>opt_salt := Some saltb\<rparr>) sa);
        pre = fst (cssVarStep cb option (deref (held sa) (derivedToken th m option)));
        meta = {''_tokenKey'', ''_themeKey'', ''_hashId''}
    in (fst (snd v1) \<noteq> fst (snd v2)) =
         (hash cb (token2key cb pre salta) \<noteq> hash cb (token2key cb pre saltb)) \<and>
       filter (\<lambda>p. fst p \<notin> meta) (fst v1) = filter (\<lambda>p. fst p \<notin> meta) (fst v2) \<and>
       filter (\<lambda>p. fst p \<noteq> ''_tokenKey'') (fst (snd (snd v1))) =
         filter (\<lambda>p. fst p \<noteq> ''_tokenKey'') (fst (snd (snd v2))) \<and>
       snd (snd (snd v1)) = snd (snd (snd v2)))"
proof -
  define meta where "meta = {''_tokenKey'', ''_themeKey'', ''_hashId''}"
  have strip: "filter (\<lambda>p. fst p \<notin> meta) (obj_set ''_hashId'' x (obj_set ''_themeKey'' y
                 (obj_set ''_tokenKey'' z pre))) = filter (\<lambda>p. fst p \<notin> meta) pre" for x y z pre
    by (rule strip_attached) (simp_all add: meta_def)
  have det: "deref (held sa) (derivedToken th m option) = deref (held sb) (derivedToken th m option) \<Longrightarrow>
      fst (computeToken cb node_env th m option sa) = fst (computeToken cb node_env th m option sb)"
    by (simp add: computeToken_value)
  have fresh: "derivedToken th m option = Fresh ob \<Longrightarrow>
      fst (computeToken cb node_env th m option sa) = fst (computeToken cb node_env th m option sb)" for ob
    by (simp add: computeToken_value)
  have exact: "(fst (snd (fst (computeToken cb node_env th m (option\<lparr>opt_salt := Some salta\<rparr>) sa))) \<noteq>
      fst (snd (fst (computeToken cb node_env th m (option\<lparr>opt_salt := Some saltb\<rparr>) sa)))) =
      (hash cb (token2key cb (fst (cssVarStep cb option (deref (held sa) (derivedToken th m option)))) salta) \<noteq>
       hash cb (token2key cb (fst (cssVarStep cb option (deref (held sa) (derivedToken th m option)))) saltb))"
    by (simp add: computeToken_value Let_def derivedToken_salt cssVarStep_salt salt_of_def)
  have sem: "filter (\<lambda>p. fst p \<notin> meta) (fst (fst (computeToken cb node_env th m (option\<lparr>opt_salt := Some salta\<rparr>) sa))) =
      filter (\<lambda>p. fst p \<notin> meta) (fst (fst (computeToken cb node_env th m (option\<lparr>opt_salt := Some saltb\<rparr>) sa)))"
    by (simp add: computeToken_value Let_def derivedToken_salt cssVarStep_salt strip)
  have real: "filter (\<lambda>p. fst p \<noteq> ''_tokenKey'') (fst (snd (snd (fst (computeToken cb node_env th m (option\<lparr>opt_salt := Some salta\<rparr>) sa))))) =
      filter (\<lambda>p. fst p \<noteq> ''_tokenKey'') (fst (snd (snd (fst (computeToken cb node_env th m (option\<lparr>opt_salt := Some saltb\<rparr>) sa)))))"
    by (simp add: computeToken_value Let_def derivedToken_salt filter_obj_set_same)
  have rest: "snd (snd (snd (fst (computeToken cb node_env th m (option\<lparr>opt_salt := Some salta\<rparr>) sa)))) =
      snd (snd (snd (fst (computeToken cb node_env th m (option\<lparr>opt_salt := Some saltb\<rparr>) sa))))"
    by (simp add: computeToken_value Let_def derivedToken_salt cssVarStep_salt cssVar_key_salt)
  show ?thesis
    unfolding Let_def meta_def [symmetric]
    using det fresh exact sem real rest by blast
qed

text \<open>
  The theorem at a new derived object in two states, at a kept object that holds the same
  in two states, and at the salts \<open>s1\<close> and \<open>s2\<close>.
\<close>

theorem derivation_deterministic_and_salted_witness:
  "fst (computeToken cb0 None th0 tokA default_option world0) =
     fst (computeToken cb0 None th0 tokA default_option world_a) \<and>
   fst (computeToken cb0 None th0 tokA opt_reuse world_held) =
     fst (computeToken cb0 None th0 tokA opt_reuse (world_held\<lparr>tokenKeys := [(''_a'', 1)]\<rparr>)) \<and>
   fst (snd (fst (computeToken cb0 None th0 tokA (default_option\<lparr>opt_salt := Some ''s1''\<rparr>) world0))) \<noteq>
     fst (snd (fst (computeToken cb0 None th0 tokA (default_option\<lparr>opt_salt := Some ''s2''\<rparr>) world0)))"
  using derivation_deterministic_and_salted [where option = default_option and cb = cb0
      and node_env = None and th = th0 and m = tokA and sa = world0 and sb = world_a
      and salta = "''s1''" and saltb = "''s2''"]
    derivation_deterministic_and_salted [where option = opt_reuse and cb = cb0
      and node_env = None and th = th0 and m = tokA and sa = world_held
      and sb = "world_held\<lparr>tokenKeys := [(''_a'', 1)]\<rparr>"]
  by (simp add: cb0_def th0_def tokA_def default_option_def world0_def world_a_def world_held_def
      opt_reuse_def format_held_def derivedToken_def getComputedToken_def cssVarStep_def
      override_of_def EMPTY_OVERRIDE_def obj_assign_def obj_set_def Let_def)

text \<open>
  Claim C4 as stated fails twice. A second run on the same inputs, after the first run
  wrote into the object that the format function hands back, gives another token key and
  another hash identifier. And with a content hash that maps the two token keys to the
  same value, another salt gives the same hash identifier.
\<close>

theorem rerun_and_collision_counterexample:
  "obj_get (fst (fst (computeToken cb0 None th0 tokA opt_reuse world_held))) ''_tokenKey'' =
     Some (JStr ''_a'') \<and>
   obj_get (fst (fst (computeToken cb0 None th0 tokA opt_reuse world_rerun))) ''_tokenKey'' =
     Some (JStr ''_a_tokenKey_themeKey_hashId'') \<and>
   fst (snd (fst (computeToken cb0 None th0 tokA opt_reuse world_held))) =
     ''css-dev-only-do-not-override-h_a'' \<and>
   fst (snd (fst (computeToken cb0 None th0 tokA opt_reuse world_rerun))) =
     ''css-dev-only-do-not-override-h_a_tokenKey_themeKey_hashId'' \<and>
   fst (snd (fst (computeToken cb_short None th0 tokA (default_option\<lparr>opt_salt := Some ''s1''\<rparr>) world0))) =
     fst (snd (fst (computeToken cb_short None th0 tokA (default_option\<lparr>opt_salt := Some ''s2''\<rparr>) world0)))"
  by (simp add: world_rerun_def computeToken_world world_held_def opt_reuse_def
      format_held_def recordCleanToken_def cb_short_def cb0_def th0_def tokA_def default_option_def
      world0_def model_defs)

section \<open>The derivation against the specification\<close>

lemma later_wins_keys:
  "map fst (later_wins a b) = map fst a @ filter (\<lambda>k. k \<notin> fst ` set a) (map fst b)"
  by (simp add: later_wins_def filter_map comp_def case_prod_unfold)

lemma later_wins_distinct:
  "distinct (map fst a) \<Longrightarrow> distinct (map fst b) \<Longrightarrow> distinct (map fst (later_wins a b))"
  by (auto simp: later_wins_keys distinct_filter)

lemma map_untouched:
  "k \<notin> fst ` set a \<Longrightarrow>
   map (\<lambda>(ka, va). (ka, case if ka = k then Some v else None of None \<Rightarrow> va | Some v' \<Rightarrow> v')) a = a"
  by (induction a) auto

lemma update_later_wins:
  "distinct (map fst a) \<Longrightarrow> AList.update k v a = later_wins a [(k, v)]"
proof (induction a)
  case Nil
  show ?case by (simp add: later_wins_def)
next
  case (Cons p a)
  obtain k' v' where p: "p = (k', v')" by (cases p)
  show ?case
  proof (cases "k' = k")
    case True
    with Cons.prems p have "k \<notin> fst ` set a" by auto
    then show ?thesis
      using True p by (simp add: later_wins_def map_untouched)
  next
    case False
    with Cons p show ?thesis
      by (auto simp: later_wins_def)
  qed
qed

lemma later_wins_snoc:
  assumes "k \<notin> fst ` set b"
  shows "later_wins (later_wins a b) [(k, v)] = later_wins a (b @ [(k, v)])"
proof -
  define ov :: "obj \<Rightarrow> obj \<Rightarrow> obj"
    where "ov = (\<lambda>c. map (\<lambda>(k, v). (k, case map_of c k of Some v' \<Rightarrow> v' | None \<Rightarrow> v)))"
  define nk :: "obj \<Rightarrow> obj \<Rightarrow> obj"
    where "nk = (\<lambda>c. filter (\<lambda>(k, v). k \<notin> fst ` set c))"
  have lw: "later_wins c d = ov d c @ nk c d" for c d
    by (simp add: later_wins_def ov_def nk_def)
  have none: "map_of b k = None"
    using assms by (simp add: map_of_eq_None_iff)
  have m: "map_of (b @ [(k, v)]) x = (if x = k then Some v else map_of b x)" for x
    using none by (cases "map_of b x") (auto simp: map_add_def)
  have 1: "ov [(k, v)] (ov b a) = ov (b @ [(k, v)]) a"
    unfolding ov_def m by (auto split: option.splits)
  have 2: "ov [(k, v)] (nk a b) = nk a b"
    unfolding ov_def nk_def using assms
    by (intro map_idI) (force split: option.splits if_splits)
  have 3: "fst ` set (ov b a @ nk a b) = fst ` set a \<union> fst ` set b"
    unfolding ov_def nk_def by (auto simp: image_Un image_iff) force+
  have nk1: "nk c [(k, v)] = (if k \<in> fst ` set c then [] else [(k, v)])" for c
    by (simp add: nk_def)
  have 4: "nk (ov b a @ nk a b) [(k, v)] = nk a [(k, v)]"
    unfolding nk1 3 using assms by simp
  have 5: "ov c (x @ y) = ov c x @ ov c y" for c x y
    by (simp add: ov_def)
  have 6: "nk c (x @ y) = nk c x @ nk c y" for c x y
    by (simp add: nk_def)
  show ?thesis
    unfolding lw 5 6 1 2 4 by simp
qed

lemma obj_assign_later_wins:
  "distinct (map fst a) \<Longrightarrow> distinct (map fst b) \<Longrightarrow> obj_assign a b = later_wins a b"
proof (induction b arbitrary: a rule: rev_induct)
  case Nil
  show ?case by (simp add: obj_assign_def later_wins_def case_prod_unfold)
next
  case (snoc p b)
  obtain k v where p: "p = (k, v)" by (cases p)
  from snoc.prems p have d: "distinct (map fst b)" and kb: "k \<notin> fst ` set b" by auto
  have "obj_assign a (b @ [p]) = AList.update k v (obj_assign a b)"
    by (simp add: obj_assign_def obj_set_def p)
  also have "\<dots> = later_wins (later_wins a b) [(k, v)]"
    using snoc.IH [OF snoc.prems(1) d] later_wins_distinct [OF snoc.prems(1) d]
    by (simp add: update_later_wins)
  also have "\<dots> = later_wins a (b @ [p])"
    by (simp add: later_wins_snoc [OF kb] p)
  finally show ?case .
qed

lemma foldl_assign_later_wins:
  "distinct (map fst a) \<Longrightarrow> \<forall>f\<in>set fs. distinct (map fst f) \<Longrightarrow>
   foldl obj_assign a fs = foldl later_wins a fs"
proof (induction fs arbitrary: a)
  case Nil
  show ?case by simp
next
  case (Cons f fs)
  from Cons.prems have df: "distinct (map fst f)" and dfs: "\<forall>f\<in>set fs. distinct (map fst f)"
    by simp_all
  have "distinct (map fst (later_wins a f))"
    by (rule later_wins_distinct [OF Cons.prems(1) df])
  with Cons.IH [OF _ dfs, of "later_wins a f"] show ?case
    by (simp add: obj_assign_later_wins [OF Cons.prems(1) df])
qed

lemma obj_spread_distinct:
  "distinct (map fst a) \<Longrightarrow> obj_spread a = a"
  by (simp add: obj_spread_def obj_assign_later_wins later_wins_def)

text \<open>
  Claim C6, as the code has it. On objects without repeated property names, merging the
  fragments is the left-to-right merge of the specification, and without the
  \<^verbatim>\<open>getComputedToken\<close> option the derived token is the derivation of the
  specification. With the option, the derived token is what the supplied function returns
  on the merged token, the override and the theme, and \<^verbatim>\<open>formatToken\<close> is not
  applied.
\<close>

theorem derivedToken_follows_steps:
  assumes "\<forall>f\<in>set tokens. distinct (map fst f)"
    and "distinct (map fst (override_of option))"
    and "distinct (map fst (getDerivativeToken th (mergeTokens tokens)))"
  shows "mergeTokens tokens = foldl later_wins [] tokens \<and>
         (opt_getComputedToken option = None \<longrightarrow>
            derivedToken th (mergeTokens tokens) option =
              derive_spec th tokens (override_of option) (opt_formatToken option)) \<and>
         (\<forall>c. opt_getComputedToken option = Some c \<longrightarrow>
            derivedToken th (mergeTokens tokens) option = c (mergeTokens tokens) (override_of option) th)"
proof -
  have m: "mergeTokens tokens = foldl later_wins [] tokens"
    using foldl_assign_later_wins [OF _ assms(1), of "[]"]
    by (simp add: mergeTokens_def Object_assign_def)
  have g: "getComputedToken (mergeTokens tokens) (override_of option) th fmt =
           derive_spec th tokens (override_of option) fmt" for fmt
  proof -
    have "obj_assign [] (getDerivativeToken th (mergeTokens tokens)) =
          getDerivativeToken th (mergeTokens tokens)"
      using obj_spread_distinct [OF assms(3)] by (simp add: obj_spread_def)
    then show ?thesis
      by (simp add: getComputedToken_def derive_spec_def Let_def m [symmetric]
          obj_assign_later_wins [OF assms(3) assms(2)] split: option.split)
  qed
  show ?thesis
    using m g by (simp add: derivedToken_def)
qed

text \<open>The theorem at two fragments that share a property, with an override.\<close>

theorem derivedToken_follows_steps_witness:
  "derivedToken th0 (mergeTokens [tokA, [(''b'', JNum 2), (''a'', JNum 3)]]) opt_override =
     Fresh [(''a'', JNum 3), (''b'', JNum 9)] \<and>
   derive_spec th0 [tokA, [(''b'', JNum 2), (''a'', JNum 3)]] (override_of opt_override)
     (opt_formatToken opt_override) = Fresh [(''a'', JNum 3), (''b'', JNum 9)]"
  using derivedToken_follows_steps [where tokens = "[tokA, [(''b'', JNum 2), (''a'', JNum 3)]]"
      and option = opt_override and th = th0]
  by (simp add: th0_def tokA_def default_option_def opt_override_def model_defs derive_spec_def
      later_wins_def)

text \<open>
  Claim C6 as stated fails when the option supplies \<^verbatim>\<open>getComputedToken\<close>: the
  derived token is the result of that function, not the derivation of the specification.
\<close>

theorem custom_getComputedToken_counterexample:
  "derivedToken th0 (mergeTokens [tokA]) opt_custom = Fresh [(''b'', JNum 2)] \<and>
   derive_spec th0 [tokA] (override_of opt_custom) (opt_formatToken opt_custom) =
     Fresh [(''a'', JNum 1)] \<and>
   derivedToken th0 (mergeTokens [tokA]) opt_custom \<noteq>
     derive_spec th0 [tokA] (override_of opt_custom) (opt_formatToken opt_custom)"
  by (simp add: th0_def tokA_def default_option_def opt_custom_def compute0_def model_defs
      derive_spec_def later_wins_def)

section \<open>Properties of extraction\<close>

text \<open>
  Claim C9. Extraction is a function of its arguments alone: it neither reads nor
  changes the module state. It returns \<^verbatim>\<open>null\<close> exactly when the style text of the
  entry is empty; otherwise it returns the priority \<open>-999\<close>, the \<^verbatim>\<open>_tokenKey\<close> of the
  real token, and the style text as \<^verbatim>\<open>toStyleStr\<close> renders it.
\<close>

theorem extract_null_iff_no_style:
  "(extract_entry cb (token, hashId, realToken, styleStr, cssVarKey) effectStyles options = None
      \<longleftrightarrow> styleStr = []) \<and>
   (styleStr \<noteq> [] \<longrightarrow>
      extract_entry cb (token, hashId, realToken, styleStr, cssVarKey) effectStyles options =
        Some (- 999, obj_get realToken ''_tokenKey'',
              toStyleStr cb styleStr cssVarKey (obj_get realToken ''_tokenKey'')
                [(''data-rc-order'', ''prependQueue''), (''data-rc-priority'', ''-999'')]
                (case options of None \<Rightarrow> None | Some x \<Rightarrow> ex_plain x)))"
  by (simp add: extract_entry_def Let_def)

text \<open>The theorem at an entry with a style text, and at one without.\<close>

theorem extract_null_iff_no_style_witness:
  "extract_entry cb0 ([], [], [(''_tokenKey'', JStr ''t'')], ''.k{}'', ''k'') ()
     (Some \<lparr>ex_plain = Some True\<rparr>) = Some (- 999, Some (JStr ''t''), ''.k{}'') \<and>
   extract_entry cb0 ([], [], [(''_tokenKey'', JStr ''t'')], [], []) () None = None"
  using extract_null_iff_no_style [where cb = cb0 and token = "[]" and hashId = "[]"
      and realToken = "[(''_tokenKey'', JStr ''t'')]" and styleStr = "''.k{}''" and cssVarKey = "''k''"
      and effectStyles = "()" and options = "Some \<lparr>ex_plain = Some True\<rparr>"]
    extract_null_iff_no_style [where cb = cb0 and token = "[]" and hashId = "[]"
      and realToken = "[(''_tokenKey'', JStr ''t'')]" and styleStr = "[]" and cssVarKey = "[]"
      and effectStyles = "()" and options = None]
  by (simp add: toStyleStr_def obj_get_def)

lemma wrapped_differs:
  "pre @ css @ post = css \<Longrightarrow> pre = []"
proof -
  assume "pre @ css @ post = css"
  then have "length (pre @ css @ post) = length css" by simp
  then show ?thesis by simp
qed

text \<open>
  Claim C3, as the code has it. For an entry computed in CSS-variable mode, the effect
  passes the style text of the entry to \<^verbatim>\<open>updateCSS\<close> with priority \<open>-999\<close>, and
  extraction returns the priority \<open>-999\<close> and, with the \<^verbatim>\<open>plain\<close> flag, that same
  text; without the flag it returns the text inside wrapper markup, which is never the
  text itself. Both do nothing when the text is empty. The effect keys the style by the
  hash of the theme key and tags it with the theme key, which is the variable key of the
  entry when the option supplies one; extraction returns the \<^verbatim>\<open>_tokenKey\<close> of the
  real token.
\<close>

theorem extract_text_against_injection:
  assumes "opt_cssVar option = Some cv"
  shows "let v = fst (computeToken cb node_env th m option s);
             css = snd (cssVarStep cb option (deref (held s) (derivedToken th m option)));
             tokenKey = token2key cb
               (fst (cssVarStep cb option (deref (held s) (derivedToken th m option)))) (salt_of option);
             themeKey = (case cv_key cv of Some k \<Rightarrow> k | None \<Rightarrow> tokenKey);
             cssVarKey = (case cv_key cv of Some k \<Rightarrow> k | None \<Rightarrow> []);
             realKey = token2key cb (obj_spread (deref (held s) (derivedToken th m option))) (salt_of option);
             plain_flag = (case options of None \<Rightarrow> None | Some x \<Rightarrow> ex_plain x);
             wrapped = ''<style '' @
               styleAttrs cb cssVarKey (Some (JStr realKey))
                 [(''data-rc-order'', ''prependQueue''), (''data-rc-priority'', ''-999'')] @
               ''>'' @ css @ ''</style>''
         in onTokenEffect cb ctx option v =
              (if css = [] then None
               else Some \<lparr>inj_css = css,
                          inj_key = hash cb (''css-variables-'' @ themeKey),
                          inj_options = \<lparr>mark = ATTR_MARK cb, prepend = ''queue'',
                                         attachTo = ctx_container ctx, priority = - 999\<rparr>,
                          inj_instance = ctx_instanceId ctx,
                          inj_token = themeKey\<rparr>) \<and>
            extract_entry cb v effectStyles options =
              (if css = [] then None
               else Some (- 999, Some (JStr realKey),
                          if plain_flag = Some True then css else wrapped)) \<and>
            wrapped \<noteq> css \<and>
            snd (snd (snd (snd v))) = cssVarKey"
proof -
  have w: "''<style '' @ a @ ''>'' @ css @ ''</style>'' \<noteq> css" for a css :: string
    using wrapped_differs [of "''<style '' @ a @ ''>''" css "''</style>''"] by auto
  show ?thesis
    using assms w
    by (simp add: computeToken_value Let_def onTokenEffect_def extract_entry_def toStyleStr_def
        obj_get_set str_of_def cssVar_key_def)
qed

text \<open>The theorem at an entry computed with the variable key \<open>k\<close>.\<close>

theorem extract_text_against_injection_witness:
  "map_option inj_css (onTokenEffect cb0 ctx0 opt_css entry0) = Some ''.k{--a;}'' \<and>
   extract_entry cb0 entry0 () (Some \<lparr>ex_plain = Some True\<rparr>) =
     Some (- 999, Some (JStr ''_a''), ''.k{--a;}'')"
  using extract_text_against_injection [where option = opt_css and cv = cv0 and cb = cb0
      and node_env = None and th = th0 and m = tokA and s = world0 and ctx = ctx0
      and effectStyles = "()" and options = "Some \<lparr>ex_plain = Some True\<rparr>"]
  by (simp add: cb0_def th0_def tokA_def default_option_def world0_def opt_css_def cv0_def
      ctx0_def entry0_def model_defs)

text \<open>
  Claim C3 as stated fails without the \<^verbatim>\<open>plain\<close> flag: extraction returns the
  style text inside wrapper markup, which is not the text passed to \<^verbatim>\<open>updateCSS\<close>.
\<close>

theorem extract_markup_counterexample:
  "onTokenEffect cb0 ctx0 opt_css entry0 =
     Some \<lparr>inj_css = ''.k{--a;}'', inj_key = ''hcss-variables-k'',
            inj_options = \<lparr>mark = ''data-css-hash'', prepend = ''queue'', attachTo = None,
                           priority = - 999\<rparr>,
            inj_instance = ''i'', inj_token = ''k''\<rparr> \<and>
   extract_entry cb0 entry0 () None =
     Some (- 999, Some (JStr ''_a''),
           ''<style data-rc-order=prependQueue data-rc-priority=-999 >.k{--a;}</style>'') \<and>
   map_option (snd \<circ> snd) (extract_entry cb0 entry0 () None) \<noteq>
     map_option inj_css (onTokenEffect cb0 ctx0 opt_css entry0)"
  by (simp add: cb0_def th0_def tokA_def default_option_def world0_def opt_css_def cv0_def
      ctx0_def entry0_def model_defs onTokenEffect_def extract_entry_def toStyleStr_def str_of_def)

section \<open>Properties of the polled token\<close>

lemma useCacheToken_result:
  "fst (fst (useCacheToken args s)) = cachedToken s"
  by (simp add: useCacheToken_def Let_def)

lemma useCacheToken_cachedToken:
  "cachedToken (snd (useCacheToken args s)) = cachedToken s"
  by (simp add: useCacheToken_def Let_def)

lemma useCacheToken_all_results:
  "fst (useCacheToken_all argss s) = replicate (length argss) (cachedToken s) \<and>
   cachedToken (snd (useCacheToken_all argss s)) = cachedToken s"
proof (induction argss arbitrary: s)
  case Nil
  show ?case by simp
next
  case (Cons args rest)
  obtain r ts s1 where u: "useCacheToken args s = ((r, ts), s1)"
    by (metis surj_pair)
  have r: "r = cachedToken s" and c: "cachedToken s1 = cachedToken s"
    using useCacheToken_result [of args s] useCacheToken_cachedToken [of args s] u by simp_all
  show ?case
    using Cons.IH [of s1] by (auto simp: u r c split: prod.split)
qed

text \<open>
  Claim C2. The default export returns the current \<^verbatim>\<open>cachedToken\<close> whatever its
  arguments are, and leaves it as it is: the arguments can only replace
  \<^verbatim>\<open>cacheArgs\<close>. Any number of renders return the same value, which is the literal
  in the module as loaded. A render of \<^verbatim>\<open>PollCacheTokenHelper\<close> runs the helper hook
  on \<^verbatim>\<open>cacheArgs\<close> and stores its result in \<^verbatim>\<open>cachedToken\<close>; both components
  render again on an interval of 1000 milliseconds.
\<close>

theorem useCacheToken_returns_cachedToken:
  "fst (fst (useCacheToken args s)) = cachedToken s \<and>
   cachedToken (snd (useCacheToken args s)) = cachedToken s \<and>
   tokenKeys (snd (useCacheToken args s)) = tokenKeys s \<and>
   cacheArgs (snd (useCacheToken args s)) =
     (if cacheArgs s = None \<or> map_option (\<lambda>old. theme_ref (arg_theme old)) (cacheArgs s) \<noteq>
           Some (theme_ref (arg_theme args))
      then Some args else cacheArgs s) \<and>
   fst (useCacheToken_all argss s) = replicate (length argss) (cachedToken s) \<and>
   cachedToken (module_init cache doc) = fixture \<and>
   (\<forall>old. cacheArgs s = Some old \<longrightarrow>
      PollCacheTokenHelper useGlobalCache cb node_env ctx s =
        Inr ((snd (useCacheTokenHelper useGlobalCache cb node_env ctx
                     (arg_theme old) (arg_tokens old) (arg_option old) s))
             \<lparr>cachedToken := fst (useCacheTokenHelper useGlobalCache cb node_env ctx
                     (arg_theme old) (arg_tokens old) (arg_option old) s)\<rparr>)) \<and>
   PollCacheTokenHelper_mounted = SetInterval SetRenderNonce 1000 \<and>
   useCacheToken_mounted = SetInterval SetCacheUpdate 1000"
proof -
  have a: "tokenKeys (snd (useCacheToken args s)) = tokenKeys s"
    by (simp add: useCacheToken_def Let_def)
  have b: "cacheArgs (snd (useCacheToken args s)) =
     (if cacheArgs s = None \<or> map_option (\<lambda>old. theme_ref (arg_theme old)) (cacheArgs s) \<noteq>
           Some (theme_ref (arg_theme args))
      then Some args else cacheArgs s)"
    by (cases "cacheArgs s") (auto simp: useCacheToken_def Let_def)
  have c: "\<forall>old. cacheArgs s = Some old \<longrightarrow>
      PollCacheTokenHelper useGlobalCache cb node_env ctx s =
        Inr ((snd (useCacheTokenHelper useGlobalCache cb node_env ctx
                     (arg_theme old) (arg_tokens old) (arg_option old) s))
             \<lparr>cachedToken := fst (useCacheTokenHelper useGlobalCache cb node_env ctx
                     (arg_theme old) (arg_tokens old) (arg_option old) s)\<rparr>)"
    by (simp add: PollCacheTokenHelper_def case_prod_beta)
  have d: "PollCacheTokenHelper_mounted = SetInterval SetRenderNonce 1000"
    "useCacheToken_mounted = SetInterval SetCacheUpdate 1000"
    by (simp_all add: PollCacheTokenHelper_mounted_def useCacheToken_mounted_def rerenderTime_def)
  have e: "cachedToken (module_init cache doc) = fixture"
    by (simp add: module_init_def)
  show ?thesis
    using useCacheToken_result [of args s] useCacheToken_cachedToken [of args s]
      useCacheToken_all_results [of argss s] a b c d e
    by blast
qed

text \<open>
  The theorem in the module as loaded: the hook returns the literal, and a render of the
  polling component stores the computed value.
\<close>

theorem useCacheToken_returns_cachedToken_witness:
  "fst (fst (useCacheToken args0 (module_init () None))) = fixture \<and>
   map_sum id (\<lambda>s. fst (snd (cachedToken s)))
     (PollCacheTokenHelper cache_miss cb0 None ctx0
        ((module_init () None)\<lparr>cacheArgs := Some args0\<rparr>)) =
     Inr ''css-dev-only-do-not-override-h_a''"
  using useCacheToken_returns_cachedToken [where args = args0 and s = "module_init () None"
      and cache = "()" and doc = None]
    useCacheToken_returns_cachedToken [where s = "(module_init () None)\<lparr>cacheArgs := Some args0\<rparr>"
      and useGlobalCache = cache_miss and cb = cb0 and node_env = None and ctx = ctx0]
  by (simp add: module_init_def args0_def useCacheTokenHelper_def cache_miss_def
      cb0_def th0_def tokA_def default_option_def ctx0_def model_defs)

end
